theory Spec2Isabelle
  imports Main
begin

section \<open>JavaScript values\<close>

text \<open>
  The server is TypeScript running on Node. A string is modelled by the bytes of its
  UTF-8 encoding (\<^typ>\<open>string\<close>), so an ASCII character is one byte and any other
  character is a lead byte followed by continuation bytes; an optional string
  (\<open>string | undefined | null\<close>) is a \<^typ>\<open>string option\<close>. JavaScript tests such
  values by truthiness: \<open>undefined\<close>, \<open>null\<close> and the empty string are falsy, every
  other string is truthy.
\<close>

definition truthyStr :: "string option \<Rightarrow> bool" where
  "truthyStr v = (case v of None \<Rightarrow> False | Some s \<Rightarrow> s \<noteq> [])"

text \<open>\<open>a || b || ""\<close> on optional strings.\<close>

definition orEmpty :: "string option \<Rightarrow> string option \<Rightarrow> string" where
  "orEmpty a b =
     (if truthyStr a then the a else if truthyStr b then the b else [])"

text \<open>
  \<open>String.prototype.toLowerCase\<close> maps every character to its lower case in Unicode,
  whatever the locale. An ASCII capital letter becomes the small letter. Two characters
  outside ASCII have a lower case with an ASCII character in it: U+212A KELVIN SIGN (bytes
  \<open>E2 84 AA\<close>) becomes \<open>k\<close>, and U+0130 LATIN CAPITAL LETTER I WITH DOT ABOVE (bytes
  \<open>C4 B0\<close>) becomes \<open>i\<close> followed by U+0307 COMBINING DOT ABOVE (bytes \<open>CC 87\<close>).
  The lower case of any other character is again a character outside ASCII; such a
  character is kept as it is here, so the result is an ASCII string, and equal to a given
  ASCII string, exactly when it is in JavaScript.
\<close>

definition lowerChar :: "char \<Rightarrow> char" where
  "lowerChar c =
     (let n = of_char c :: nat in if 65 \<le> n \<and> n \<le> 90 then char_of (n + 32) else c)"

definition isAscii :: "char \<Rightarrow> bool" where
  "isAscii c = (of_char c < (128 :: nat))"

definition kelvinSign :: string where
  "kelvinSign = [CHR 0xE2, CHR 0x84, CHR 0xAA]"

definition capitalIWithDotAbove :: string where
  "capitalIWithDotAbove = [CHR 0xC4, CHR 0xB0]"

definition combiningDotAbove :: string where
  "combiningDotAbove = [CHR 0xCC, CHR 0x87]"

fun toLowerCase :: "string \<Rightarrow> string" where
  "toLowerCase [] = []"
| "toLowerCase (c # cs) =
     (if take 3 (c # cs) = kelvinSign then CHR ''k'' # toLowerCase (drop 2 cs)
      else if take 2 (c # cs) = capitalIWithDotAbove then
        CHR ''i'' # combiningDotAbove @ toLowerCase (drop 1 cs)
      else lowerChar c # toLowerCase cs)"

declare toLowerCase.simps [simp del]

text \<open>\<open>s.replace(pat, rep)\<close> with a string pattern: the first occurrence only.\<close>

fun replaceFirst :: "string \<Rightarrow> string \<Rightarrow> string \<Rightarrow> string" where
  "replaceFirst pat rep [] = (if pat = [] then rep else [])"
| "replaceFirst pat rep (c # cs) =
     (if take (length pat) (c # cs) = pat then rep @ drop (length pat) (c # cs)
      else c # replaceFirst pat rep cs)"

text \<open>\<open>s.split(sep)[0]\<close> for a one-character separator: the part before its first occurrence.\<close>

definition splitHead :: "char \<Rightarrow> string \<Rightarrow> string" where
  "splitHead sep s = takeWhile (\<lambda>c. c \<noteq> sep) s"

text \<open>\<open>s.replace(/\D/g, "")\<close>: keep the decimal digits.\<close>

definition isDigit :: "char \<Rightarrow> bool" where
  "isDigit c = (let n = of_char c :: nat in 48 \<le> n \<and> n \<le> 57)"

definition stripNonDigits :: "string \<Rightarrow> string" where
  "stripNonDigits s = filter isDigit s"

subsection \<open>Node's \<open>path\<close> module (POSIX flavour)\<close>

text \<open>
  \<open>path.basename\<close> is the last segment of the path, trailing slashes ignored;
  \<open>path.extname\<close> is the part of that segment from its last dot on, and is empty when
  the segment has no dot, starts with its only dot, or is \<open>..\<close>.
\<close>

definition basename :: "string \<Rightarrow> string" where
  "basename p =
     rev (takeWhile (\<lambda>c. c \<noteq> CHR ''/'') (dropWhile (\<lambda>c. c = CHR ''/'') (rev p)))"

definition extname :: "string \<Rightarrow> string" where
  "extname p =
     (let seg = basename p;
          tail = rev (takeWhile (\<lambda>c. c \<noteq> CHR ''.'') (rev seg))
      in if CHR ''.'' \<notin> set seg then []
         else if length seg = Suc (length tail) \<or> seg = ''..'' then []
         else CHR ''.'' # tail)"

datatype error = TypeError | RangeError | SyntaxError | Error string

text \<open>
  \<open>crypto.timingSafeEqual\<close> on the two buffers: it throws when the lengths differ and
  compares the bytes otherwise.
\<close>

definition timingSafeEqual :: "string \<Rightarrow> string \<Rightarrow> error + bool" where
  "timingSafeEqual a b = (if length a \<noteq> length b then Inl RangeError else Inr (a = b))"

section \<open>The provider adapter (\<open>server/providers/meta.ts\<close>)\<close>

record environment =
  META_TOKEN :: "string option"
  META_PHONE_NUMBER_ID :: "string option"
  META_VERIFY_TOKEN :: "string option"
  META_APP_SECRET :: "string option"
  META_GRAPH_VERSION :: "string option"

record MetaProvider =
  token :: string
  phoneNumberId :: string
  verifyToken :: string
  appSecret :: string
  graphVersion :: string

text \<open>The constructor: each argument falls back to the environment, then to a default.\<close>

definition newMetaProvider ::
  "environment \<Rightarrow> string option \<Rightarrow> string option \<Rightarrow> string option \<Rightarrow> string option
     \<Rightarrow> string option \<Rightarrow> MetaProvider" where
  "newMetaProvider env tok pid vtok secret gv =
     \<lparr> token = orEmpty tok (META_TOKEN env),
       phoneNumberId = orEmpty pid (META_PHONE_NUMBER_ID env),
       verifyToken = orEmpty vtok (META_VERIFY_TOKEN env),
       appSecret = orEmpty secret (META_APP_SECRET env),
       graphVersion =
         (if truthyStr gv then the gv
          else if truthyStr (META_GRAPH_VERSION env) then the (META_GRAPH_VERSION env)
          else ''v19.0'') \<rparr>"

subsection \<open>Outbound payload construction (\<open>send\<close>, before the HTTP call)\<close>

definition asImage :: "string list" where
  "asImage = [''.jpg'', ''.jpeg'', ''.png'', ''.gif'', ''.webp'']"

definition asVideo :: "string list" where
  "asVideo = [''.mp4'', ''.mov'', ''.avi'', ''.mkv'', ''.webm'']"

definition asAudio :: "string list" where
  "asAudio = [''.mp3'', ''.mpeg'', ''.ogg'', ''.wav'', ''.aac'']"

definition asDocument :: "string list" where
  "asDocument =
     [''.pdf'', ''.doc'', ''.docx'', ''.xls'', ''.xlsx'', ''.ppt'', ''.pptx'', ''.txt'', ''.csv'']"

text \<open>The object stored under the key named by \<open>type\<close>.\<close>

datatype payload_content =
    NoContent
  | TextContent string
  | ImageContent string "string option"
  | VideoContent string "string option"
  | AudioContent string
  | DocumentContent string string "string option"

record messagePayload =
  messaging_product :: string
  to_field :: string
  type_field :: "string option"
  content :: payload_content

text \<open>\<open>mediaUrl.split("?")[0].split("#")[0]\<close>\<close>

definition normalizedUrl :: "string \<Rightarrow> string" where
  "normalizedUrl mediaUrl = splitHead CHR ''#'' (splitHead CHR ''?'' mediaUrl)"

definition mediaExtension :: "string \<Rightarrow> string" where
  "mediaExtension mediaUrl = toLowerCase (extname (normalizedUrl mediaUrl))"

text \<open>\<open>if (body) x.caption = body\<close>: the caption is set for a truthy body only.\<close>

definition captionOf :: "string option \<Rightarrow> string option" where
  "captionOf body = (if truthyStr body then body else None)"

definition buildOutboundPayload ::
  "string \<Rightarrow> string option \<Rightarrow> string option \<Rightarrow> messagePayload" where
  "buildOutboundPayload to body mediaUrl =
     (let cleanPhone = stripNonDigits to;
          base = \<lparr> messaging_product = ''whatsapp'', to_field = cleanPhone,
                   type_field = None, content = NoContent \<rparr>
      in if truthyStr mediaUrl then
           (let url = the mediaUrl;
                extension = mediaExtension url;
                filename =
                  basename (if normalizedUrl url = [] then ''attachment'' else normalizedUrl url)
            in if extension \<in> set asImage then
                 base\<lparr> type_field := Some ''image'', content := ImageContent url (captionOf body) \<rparr>
               else if extension \<in> set asVideo then
                 base\<lparr> type_field := Some ''video'', content := VideoContent url (captionOf body) \<rparr>
               else if extension \<in> set asAudio then
                 base\<lparr> type_field := Some ''audio'', content := AudioContent url \<rparr>
               else if extension \<in> set asDocument \<or> length extension = 0 then
                 base\<lparr> type_field := Some ''document'',
                       content := DocumentContent url filename (captionOf body) \<rparr>
               else
                 base\<lparr> type_field := Some ''document'',
                       content := DocumentContent url filename (captionOf body) \<rparr>)
         else if truthyStr body then
           base\<lparr> type_field := Some ''text'', content := TextContent (the body) \<rparr>
         else base)"

subsection \<open>Webhook signature\<close>

text \<open>
  \<open>verifyWebhookSignature\<close>. The HMAC-SHA256 hex digest is Node's \<open>crypto\<close>; it is the
  parameter \<open>hmac\<close> (key first, then message). The \<open>try\<close>/\<open>catch\<close> turns every
  exception into \<open>false\<close>.
\<close>

definition verifyWebhookSignature ::
  "(string \<Rightarrow> string \<Rightarrow> string) \<Rightarrow> MetaProvider \<Rightarrow> string option \<Rightarrow> string \<Rightarrow> bool" where
  "verifyWebhookSignature hmac p signature rawBody =
     (if \<not> truthyStr signature then appSecret p = []
      else if appSecret p = [] then True
      else
        (let expectedSignature = hmac (appSecret p) rawBody;
             signatureHash = replaceFirst ''sha256='' [] (the signature)
         in case timingSafeEqual signatureHash expectedSignature of
              Inl e \<Rightarrow> False
            | Inr b \<Rightarrow> b))"

subsection \<open>JSON payloads as JavaScript sees them\<close>

text \<open>
  A parsed request body is a JSON value (numbers are integers here; only their being zero
  is ever observed). A JavaScript value read out of it is a \<open>json option\<close>, where
  \<open>None\<close> is \<open>undefined\<close>.
\<close>

datatype json =
    JNull
  | JBool bool
  | JNum int
  | JStr string
  | JArr "json list"
  | JObj "(string \<times> json) list"

type_synonym jsval = "json option"

fun truthyJson :: "json \<Rightarrow> bool" where
  "truthyJson JNull = False"
| "truthyJson (JBool b) = b"
| "truthyJson (JNum n) = (n \<noteq> 0)"
| "truthyJson (JStr s) = (s \<noteq> [])"
| "truthyJson (JArr xs) = True"
| "truthyJson (JObj kvs) = True"

definition truthy :: "jsval \<Rightarrow> bool" where
  "truthy v = (case v of None \<Rightarrow> False | Some j \<Rightarrow> truthyJson j)"

text \<open>
  \<open>x.k\<close> on a value that is not \<open>null\<close>: an object yields the member (the last one when
  the JSON text repeated the key), and a primitive or an array has none of the keys
  that are read here.
\<close>

fun memberOf :: "json \<Rightarrow> string \<Rightarrow> jsval" where
  "memberOf (JObj kvs) k = map_of (rev kvs) k"
| "memberOf j k = None"

text \<open>\<open>x.k\<close>: reading a property of \<open>null\<close> or \<open>undefined\<close> throws a TypeError.\<close>

fun getProp :: "jsval \<Rightarrow> string \<Rightarrow> error + jsval" where
  "getProp None k = Inl TypeError"
| "getProp (Some JNull) k = Inl TypeError"
| "getProp (Some j) k = Inr (memberOf j k)"

text \<open>\<open>x?.k\<close>: \<open>undefined\<close> when \<open>x\<close> is \<open>null\<close> or \<open>undefined\<close>.\<close>

fun optProp :: "jsval \<Rightarrow> string \<Rightarrow> jsval" where
  "optProp None k = None"
| "optProp (Some JNull) k = None"
| "optProp (Some j) k = memberOf j k"

text \<open>\<open>a ?? b\<close>\<close>

fun nullish :: "jsval \<Rightarrow> jsval \<Rightarrow> jsval" where
  "nullish None b = b"
| "nullish (Some JNull) b = b"
| "nullish (Some j) b = Some j"

text \<open>
  The characters of a string: each byte that is not a continuation byte (\<open>80\<close> to
  \<open>BF\<close>) starts a character, which takes the continuation bytes that follow it.
\<close>

definition isContinuation :: "char \<Rightarrow> bool" where
  "isContinuation c = (let n = of_char c :: nat in 128 \<le> n \<and> n \<le> 191)"

function codePoints :: "string \<Rightarrow> string list" where
  "codePoints [] = []"
| "codePoints (c # cs) =
     (c # takeWhile isContinuation cs) # codePoints (dropWhile isContinuation cs)"
  by pat_completeness auto

termination
  by (relation "measure length") (simp_all add: length_dropWhile_le less_Suc_eq_le)

text \<open>
  \<open>for (const x of v)\<close>: an array yields its elements and a string its characters;
  any other value is not iterable, which is a TypeError.
\<close>

fun iterate :: "jsval \<Rightarrow> error + json list" where
  "iterate (Some (JArr xs)) = Inr xs"
| "iterate (Some (JStr s)) = Inr (map JStr (codePoints s))"
| "iterate v = Inl TypeError"

subsection \<open>Normalising an inbound payload (\<open>parseIncoming\<close>)\<close>

text \<open>
  The media descriptor stub. Its fields \<open>sha256\<close>, \<open>sizeBytes\<close>, \<open>width\<close>, \<open>height\<close>,
  \<open>durationSeconds\<close>, \<open>pageCount\<close>, \<open>url\<close>, \<open>previewUrl\<close> and \<open>thumbnailUrl\<close> are read from
  \<open>metadata\<close> in the same way as the ones kept here and are not looked at again on the
  paths modelled below.
\<close>

record IncomingMediaDescriptor =
  d_provider :: string
  d_type :: string
  d_mediaId :: jsval
  d_mimeType :: jsval
  d_filename :: jsval
  d_metadata :: json

definition buildMediaDescriptor :: "string \<Rightarrow> jsval \<Rightarrow> IncomingMediaDescriptor option" where
  "buildMediaDescriptor ty payload =
     (if \<not> truthy payload then None
      else Some \<lparr> d_provider = ''meta'', d_type = ty,
                  d_mediaId = nullish (optProp payload ''id'') (nullish (optProp payload ''media_id'') None),
                  d_mimeType =
                    nullish (optProp payload ''mime_type'') (nullish (optProp payload ''mimetype'') None),
                  d_filename = nullish (optProp payload ''filename'') None,
                  d_metadata = the payload \<rparr>)"

record IncomingMessageEvent =
  e_from :: jsval
  e_raw :: json
  e_providerMessageId :: jsval
  e_timestamp :: string
  e_body :: jsval
  e_media :: "IncomingMediaDescriptor option"

text \<open>
  One element of a \<open>messages\<close> array. The timestamp expression
  \<open>Number.isFinite(Number(t)) ? new Date(Number(t) * 1000).toISOString() : new Date().toISOString()\<close>
  belongs to the JavaScript runtime (number parsing, the clock, and \<open>toISOString\<close>, which
  throws a RangeError on a date out of range); it is the parameter \<open>timestampIso\<close>, applied
  to \<open>msg.timestamp\<close>. Console output is not modelled.
\<close>

definition parseMessage :: "(jsval \<Rightarrow> error + string) \<Rightarrow> json \<Rightarrow> error + IncomingMessageEvent" where
  "parseMessage timestampIso msg =
     (case getProp (Some msg) ''timestamp'' of
        Inl err \<Rightarrow> Inl err
      | Inr t \<Rightarrow>
          (case timestampIso t of
             Inl err \<Rightarrow> Inl err
           | Inr isoString \<Rightarrow>
               (let m = Some msg;
                    event = \<lparr> e_from = optProp m ''from'', e_raw = msg,
                              e_providerMessageId = optProp m ''id'', e_timestamp = isoString,
                              e_body = None, e_media = None \<rparr>;
                    ty = optProp m ''type''
                in if ty = Some (JStr ''text'') then
                     Inr (event\<lparr> e_body := optProp (optProp m ''text'') ''body'' \<rparr>)
                   else if ty = Some (JStr ''image'') then
                     Inr (event\<lparr> e_media := buildMediaDescriptor ''image'' (optProp m ''image''),
                                e_body := nullish (optProp (optProp m ''image'') ''caption'')
                                            (optProp m ''caption'') \<rparr>)
                   else if ty = Some (JStr ''document'') then
                     Inr (event\<lparr> e_media := buildMediaDescriptor ''document'' (optProp m ''document''),
                                e_body := nullish (optProp (optProp m ''document'') ''caption'')
                                            (optProp m ''caption'') \<rparr>)
                   else if ty = Some (JStr ''video'') then
                     Inr (event\<lparr> e_media := buildMediaDescriptor ''video'' (optProp m ''video''),
                                e_body := nullish (optProp (optProp m ''video'') ''caption'')
                                            (optProp m ''caption'') \<rparr>)
                   else if ty = Some (JStr ''audio'') then
                     Inr (event\<lparr> e_media := buildMediaDescriptor ''audio'' (optProp m ''audio'') \<rparr>)
                   else Inr event)))"

text \<open>
  The three nested \<open>for\<close> loops. An exception leaves the function at once, so the events
  collected so far are lost with it.
\<close>

fun parseMessages ::
  "(jsval \<Rightarrow> error + string) \<Rightarrow> json list \<Rightarrow> error + IncomingMessageEvent list" where
  "parseMessages ts [] = Inr []"
| "parseMessages ts (msg # msgs) =
     (case parseMessage ts msg of
        Inl err \<Rightarrow> Inl err
      | Inr ev \<Rightarrow>
          (case parseMessages ts msgs of
             Inl err \<Rightarrow> Inl err
           | Inr evs \<Rightarrow> Inr (ev # evs)))"

definition parseChange ::
  "(jsval \<Rightarrow> error + string) \<Rightarrow> json \<Rightarrow> error + IncomingMessageEvent list" where
  "parseChange ts change =
     (case getProp (Some change) ''value'' of
        Inl err \<Rightarrow> Inl err
      | Inr v \<Rightarrow>
          (if truthy (optProp v ''messages'') then
             (case iterate (optProp v ''messages'') of
                Inl err \<Rightarrow> Inl err
              | Inr msgs \<Rightarrow> parseMessages ts msgs)
           else Inr []))"

fun parseChanges ::
  "(jsval \<Rightarrow> error + string) \<Rightarrow> json list \<Rightarrow> error + IncomingMessageEvent list" where
  "parseChanges ts [] = Inr []"
| "parseChanges ts (change # changes) =
     (case parseChange ts change of
        Inl err \<Rightarrow> Inl err
      | Inr evs \<Rightarrow>
          (case parseChanges ts changes of
             Inl err \<Rightarrow> Inl err
           | Inr rest \<Rightarrow> Inr (evs @ rest)))"

definition parseEntry ::
  "(jsval \<Rightarrow> error + string) \<Rightarrow> json \<Rightarrow> error + IncomingMessageEvent list" where
  "parseEntry ts entry =
     (case getProp (Some entry) ''changes'' of
        Inl err \<Rightarrow> Inl err
      | Inr cs \<Rightarrow>
          (if \<not> truthy cs then Inr []
           else
             (case iterate cs of
                Inl err \<Rightarrow> Inl err
              | Inr changes \<Rightarrow> parseChanges ts changes)))"

fun parseEntries ::
  "(jsval \<Rightarrow> error + string) \<Rightarrow> json list \<Rightarrow> error + IncomingMessageEvent list" where
  "parseEntries ts [] = Inr []"
| "parseEntries ts (entry # entries) =
     (case parseEntry ts entry of
        Inl err \<Rightarrow> Inl err
      | Inr evs \<Rightarrow>
          (case parseEntries ts entries of
             Inl err \<Rightarrow> Inl err
           | Inr rest \<Rightarrow> Inr (evs @ rest)))"

definition parseIncoming ::
  "(jsval \<Rightarrow> error + string) \<Rightarrow> json \<Rightarrow> error + IncomingMessageEvent list" where
  "parseIncoming ts payload =
     (case getProp (Some payload) ''entry'' of
        Inl err \<Rightarrow> Inl err
      | Inr en \<Rightarrow>
          (if \<not> truthy en then Inr []
           else
             (case iterate en of
                Inl err \<Rightarrow> Inl err
              | Inr entries \<Rightarrow> parseEntries ts entries)))"

section \<open>The storage collaborator\<close>

text \<open>
  \<open>server/storage.ts\<close> is used through its interface only. The records follow the data
  model of the specification and the arguments the handlers pass; identifiers are natural
  numbers handed out by a counter, and time is a natural number.
\<close>

record WhatsappInstanceConfig =
  i_isActive :: "bool option"
  i_accessToken :: "string option"
  i_phoneNumberId :: "string option"
  i_webhookVerifyToken :: "string option"
  i_appSecret :: "string option"

record Conversation =
  c_id :: nat
  c_phone :: jsval
  c_lastAt :: nat
  c_createdByUserId :: "nat option"

record MessageMedia =
  m_origin :: string
  m_type :: string
  m_status :: string
  m_provider :: string
  m_providerMediaId :: jsval
  m_mimeType :: "string option"
  m_filename :: jsval
  m_extension :: "string option"
  m_url :: "string option"
  m_downloadAttempts :: nat

datatype direction = Inbound | Outbound

record Message =
  msg_id :: nat
  conversationId :: nat
  direction :: direction
  body :: jsval
  media :: "MessageMedia option"
  providerMessageId :: jsval
  status :: string
  raw :: "json option"
  replyToMessageId :: "nat option"
  sentByUserId :: "nat option"

datatype qvalue = QStr string | QOther

datatype logged_body = LoggedNull | LoggedJson json | LoggedEvent IncomingMessageEvent

text \<open>
  What a handler answers or logs as the response body: a plain text, the JSON object
  \<open>{error: e.message}\<close> of a caught exception, the JSON object \<open>{error: "..."}\<close> written
  out in the handler, or \<open>{ok: true, message}\<close>.
\<close>

datatype response_body =
    Text string
  | ErrorOf error
  | ErrorJson string
  | OkMessage Message

record WebhookEvent =
  we_headers :: "(string \<times> string) list"
  we_query :: "(string \<times> qvalue) list"
  we_body :: logged_body
  we_status :: nat
  we_response :: response_body
  we_messageId :: "nat option"

record state =
  defaultInstance :: "WhatsappInstanceConfig option"
  conversations :: "Conversation list"
  messages :: "Message list"
  webhookEvents :: "WebhookEvent list"
  nextId :: nat
  broadcasts :: "(string \<times> Message) list"
  mediaIngestions :: "(nat \<times> nat \<times> IncomingMediaDescriptor) list"
  dispatched :: "messagePayload list"

text \<open>Modelled from the spec: \<open>storage.getConversationByPhone\<close>, the conversation with that phone.\<close>

definition getConversationByPhone :: "state \<Rightarrow> jsval \<Rightarrow> Conversation option" where
  "getConversationByPhone st ph = find (\<lambda>c. c_phone c = ph) (conversations st)"

text \<open>Modelled from the spec: \<open>storage.getConversationById\<close>.\<close>

definition getConversationById :: "state \<Rightarrow> nat \<Rightarrow> Conversation option" where
  "getConversationById st i = find (\<lambda>c. c_id c = i) (conversations st)"

text \<open>Modelled from the spec: \<open>storage.createConversation\<close>, a new record with a fresh identity.\<close>

definition createConversation ::
  "state \<Rightarrow> nat \<Rightarrow> jsval \<Rightarrow> nat option \<Rightarrow> Conversation \<times> state" where
  "createConversation st now ph user =
     (let c = \<lparr> c_id = nextId st, c_phone = ph, c_lastAt = now, c_createdByUserId = user \<rparr>
      in (c, st\<lparr> conversations := conversations st @ [c], nextId := Suc (nextId st) \<rparr>))"

text \<open>Modelled from the spec: \<open>storage.createMessage\<close>, the given fields under a fresh identity.\<close>

definition createMessage :: "state \<Rightarrow> Message \<Rightarrow> Message \<times> state" where
  "createMessage st draft =
     (let m = draft\<lparr> msg_id := nextId st \<rparr>
      in (m, st\<lparr> messages := messages st @ [m], nextId := Suc (nextId st) \<rparr>))"

text \<open>Modelled from the spec: \<open>storage.getMessageByProviderMessageId\<close>, the idempotency lookup.\<close>

definition getMessageByProviderMessageId :: "state \<Rightarrow> jsval \<Rightarrow> Message option" where
  "getMessageByProviderMessageId st pid = find (\<lambda>m. providerMessageId m = pid) (messages st)"

text \<open>Modelled from the spec: \<open>storage.getMessageById\<close>.\<close>

definition getMessageById :: "state \<Rightarrow> nat \<Rightarrow> Message option" where
  "getMessageById st i = find (\<lambda>m. msg_id m = i) (messages st)"

text \<open>
  Modelled from the spec: \<open>storage.getMessageWithReplyById\<close>, the message as stored (the
  joined reply target is not part of the record here).
\<close>

definition getMessageWithReplyById :: "state \<Rightarrow> nat \<Rightarrow> Message option" where
  "getMessageWithReplyById st i = getMessageById st i"

text \<open>Modelled from the spec: \<open>storage.updateConversationLastAt\<close> stamps the conversation.\<close>

definition updateConversationLastAt :: "state \<Rightarrow> nat \<Rightarrow> nat \<Rightarrow> state" where
  "updateConversationLastAt st now cid =
     st\<lparr> conversations :=
           map (\<lambda>c. if c_id c = cid then c\<lparr> c_lastAt := now \<rparr> else c) (conversations st) \<rparr>"

text \<open>Modelled from the spec: \<open>storage.logWebhookEvent\<close> appends to the audit log.\<close>

definition logWebhookEvent :: "state \<Rightarrow> WebhookEvent \<Rightarrow> state" where
  "logWebhookEvent st ev = st\<lparr> webhookEvents := webhookEvents st @ [ev] \<rparr>"

text \<open>
  \<open>broadcastMessage\<close> serialises \<open>{event, data}\<close> and sends it to every open socket; the
  model records what was published.
\<close>

definition broadcastMessage :: "state \<Rightarrow> string \<Rightarrow> Message \<Rightarrow> state" where
  "broadcastMessage st event data = st\<lparr> broadcasts := broadcasts st @ [(event, data)] \<rparr>"

section \<open>The route handlers\<close>

text \<open>
  Functions of the runtime (\<open>crypto\<close>, \<open>JSON\<close>, \<open>Date\<close>) and of modules that are
  used through their interface only (\<open>lib/mime\<close>, \<open>services/media-pipeline\<close>,
  \<open>services/media-storage\<close>) are parameters, collected in one record. So is
  \<open>resolvePublicMediaUrl\<close>, which turns a media path into the URL the provider
  fetches, from the request's host headers and the environment: nothing below looks at
  the URL it returns.
\<close>

record collaborators =
  hmacSha256Hex :: "string \<Rightarrow> string \<Rightarrow> string"
  JSON_stringify :: "json \<Rightarrow> string"
  timestampIso :: "jsval \<Rightarrow> error + string"
  getExtensionFromMime :: "jsval \<Rightarrow> error + string option"
  normalizeMimeType :: "jsval \<Rightarrow> error + string option"
  getMimeTypeFromExtension :: "string \<Rightarrow> string option"
  getMimeType :: "string \<Rightarrow> string option"
  buildSignedMediaUrlsForMessage :: "Message \<Rightarrow> Message"
  extractRelativeMediaPath :: "string \<Rightarrow> string option"
  buildSignedMediaPath :: "string \<Rightarrow> string"
  toUrlPath :: "string \<Rightarrow> string"
  resolvePublicMediaUrl :: "string \<Rightarrow> string"

record request =
  req_headers :: "(string \<times> string) list"
  req_query :: "(string \<times> qvalue) list"
  req_body :: json
  req_rawBody :: "string option"

record response =
  res_status :: nat
  res_body :: response_body

subsection \<open>\<open>createMetaProvider\<close>\<close>

definition createMetaProvider ::
  "environment \<Rightarrow> state \<Rightarrow> error + (MetaProvider \<times> WhatsappInstanceConfig option)" where
  "createMetaProvider env st =
     (case defaultInstance st of
        Some inst \<Rightarrow>
          (if i_isActive inst = Some False then
             Inl (Error ''Default WhatsApp instance is disabled.'')
           else if \<not> truthyStr (i_accessToken inst) \<or> \<not> truthyStr (i_phoneNumberId inst) then
             Inl (Error ''Default WhatsApp instance is missing required credentials.'')
           else
             Inr (newMetaProvider env (i_accessToken inst) (i_phoneNumberId inst)
                    (i_webhookVerifyToken inst) (i_appSecret inst) None,
                  Some inst))
      | None \<Rightarrow>
          Inr (newMetaProvider env (META_TOKEN env) (META_PHONE_NUMBER_ID env)
                 (META_VERIFY_TOKEN env) (META_APP_SECRET env) (META_GRAPH_VERSION env),
               None))"

subsection \<open>The verification handshake (GET)\<close>

definition onlineNotice :: string where
  "onlineNotice =
     ''Meta webhook endpoint is online. To verify, Meta will call this URL with hub.mode=subscribe, hub.verify_token, and hub.challenge query parameters.''"

definition missingTokenNotice :: string where
  "missingTokenNotice =
     ''Verify token is not configured. Set META_VERIFY_TOKEN or update the Default WhatsApp Instance.''"

text \<open>
  \<open>isVerificationAttempt\<close>: the mode is a string that lower-cases to \<open>subscribe\<close> and the
  challenge is a string. The result carries that challenge.
\<close>

definition verificationAttempt :: "request \<Rightarrow> string option" where
  "verificationAttempt req =
     (case (map_of (req_query req) ''hub.mode'', map_of (req_query req) ''hub.challenge'') of
        (Some (QStr mode), Some (QStr challenge)) \<Rightarrow>
          (if toLowerCase mode = ''subscribe'' then Some challenge else None)
      | _ \<Rightarrow> None)"

text \<open>
  \<open>MetaProvider.verifyWebhook\<close>, the adapter's own test of a verification request. The
  handler below does not call it and compares the token itself.
\<close>

definition verifyWebhook :: "MetaProvider \<Rightarrow> request \<Rightarrow> bool" where
  "verifyWebhook p req =
     (map_of (req_query req) ''hub.mode'' = Some (QStr ''subscribe'')
      \<and> map_of (req_query req) ''hub.verify_token'' = Some (QStr (verifyToken p)))"

text \<open>\<open>instance?.webhookVerifyToken ?? process.env.META_VERIFY_TOKEN ?? ""\<close>\<close>

definition expectedToken :: "environment \<Rightarrow> WhatsappInstanceConfig option \<Rightarrow> string" where
  "expectedToken env inst =
     (let fromEnv = (case META_VERIFY_TOKEN env of Some t \<Rightarrow> t | None \<Rightarrow> [])
      in case inst of
           None \<Rightarrow> fromEnv
         | Some i \<Rightarrow> (case i_webhookVerifyToken i of Some t \<Rightarrow> t | None \<Rightarrow> fromEnv))"

definition verificationLog :: "request \<Rightarrow> nat \<Rightarrow> response_body \<Rightarrow> WebhookEvent" where
  "verificationLog req code summary =
     \<lparr> we_headers = req_headers req, we_query = req_query req, we_body = LoggedNull,
       we_status = code, we_response = summary, we_messageId = None \<rparr>"

definition handleMetaWebhookVerification ::
  "environment \<Rightarrow> request \<Rightarrow> state \<Rightarrow> response \<times> state" where
  "handleMetaWebhookVerification env req st =
     (case verificationAttempt req of
        None \<Rightarrow> (\<lparr> res_status = 200, res_body = Text onlineNotice \<rparr>, st)
      | Some challenge \<Rightarrow>
          (case createMetaProvider env st of
             Inl err \<Rightarrow>
               (\<lparr> res_status = 500, res_body = Text ''Error'' \<rparr>,
                logWebhookEvent st (verificationLog req 500 (ErrorOf err)))
           | Inr (provider, inst) \<Rightarrow>
               (if expectedToken env inst = [] then
                  (\<lparr> res_status = 500, res_body = Text missingTokenNotice \<rparr>,
                   logWebhookEvent st
                     (verificationLog req 500 (Text ''Missing verify token configuration'')))
                else if map_of (req_query req) ''hub.verify_token''
                          \<noteq> Some (QStr (expectedToken env inst)) then
                  (\<lparr> res_status = 403, res_body = Text ''Forbidden'' \<rparr>,
                   logWebhookEvent st (verificationLog req 403 (Text ''Forbidden'')))
                else
                  (\<lparr> res_status = 200, res_body = Text challenge \<rparr>,
                   logWebhookEvent st (verificationLog req 200 (Text challenge))))))"

subsection \<open>Ingestion (POST)\<close>

text \<open>
  \<open>getExtensionFromFilename\<close>: the text after the last dot, lower-cased. A truthy value
  that is not a string has no \<open>split\<close> method, which is a TypeError.
\<close>

definition getExtensionFromFilename :: "jsval \<Rightarrow> error + string option" where
  "getExtensionFromFilename filename =
     (if \<not> truthy filename then Inr None
      else
        (case filename of
           Some (JStr s) \<Rightarrow>
             (let normalized = rev (takeWhile (\<lambda>c. c \<noteq> CHR ''.'') (rev s))
              in Inr (if normalized = [] then None else Some (toLowerCase normalized)))
         | _ \<Rightarrow> Inl TypeError))"

definition createPendingMediaDescriptor ::
  "collaborators \<Rightarrow> IncomingMediaDescriptor option \<Rightarrow> error + MessageMedia option" where
  "createPendingMediaDescriptor deps descriptor =
     (case descriptor of
        None \<Rightarrow> Inr None
      | Some d \<Rightarrow>
          (case getExtensionFromMime deps (d_mimeType d) of
             Inl err \<Rightarrow> Inl err
           | Inr fromMime \<Rightarrow>
               (case (case fromMime of
                        Some x \<Rightarrow> Inr (Some x)
                      | None \<Rightarrow> getExtensionFromFilename (d_filename d)) of
                  Inl err \<Rightarrow> Inl err
                | Inr inferredExtension \<Rightarrow>
                    (case normalizeMimeType deps (d_mimeType d) of
                       Inl err \<Rightarrow> Inl err
                     | Inr mime \<Rightarrow>
                         Inr (Some \<lparr> m_origin = ''whatsapp'', m_type = d_type d,
                                     m_status = ''pending'', m_provider = d_provider d,
                                     m_providerMediaId = nullish (d_mediaId d) None,
                                     m_mimeType = mime,
                                     m_filename = nullish (d_filename d) None,
                                     m_extension = inferredExtension, m_url = None,
                                     m_downloadAttempts = 0 \<rparr>)))))"

text \<open>
  The body of the \<open>for (const event of events)\<close> loop. The result is the exception that
  left the body, if any, and the state reached; effects that came before an exception stay.
  The body starts with the idempotency check \<open>isDuplicate\<close>: the event has a truthy
  provider message id and a message with that id is stored.
  \<open>ingestWhatsappMedia\<close> is started and not awaited: the model records that it was started.
\<close>

definition isDuplicate :: "state \<Rightarrow> IncomingMessageEvent \<Rightarrow> bool" where
  "isDuplicate st event =
     (truthy (e_providerMessageId event)
      \<and> getMessageByProviderMessageId st (e_providerMessageId event) \<noteq> None)"

definition processEvent ::
  "collaborators \<Rightarrow> request \<Rightarrow> nat \<Rightarrow> IncomingMessageEvent \<Rightarrow> state \<Rightarrow> error option \<times> state" where
  "processEvent deps req now event st =
     (if isDuplicate st event then (None, st)
      else
        (let (conversation, st1) =
               (case getConversationByPhone st (e_from event) of
                  Some c \<Rightarrow> (c, st)
                | None \<Rightarrow> createConversation st now (e_from event) None)
         in case createPendingMediaDescriptor deps (e_media event) of
              Inl err \<Rightarrow> (Some err, st1)
            | Inr pendingMedia \<Rightarrow>
                (let (message, st2) =
                       createMessage st1
                         \<lparr> msg_id = 0, conversationId = c_id conversation,
                           direction = Inbound, body = nullish (e_body event) None,
                           media = pendingMedia,
                           providerMessageId = nullish (e_providerMessageId event) None,
                           status = ''received'', raw = Some (e_raw event),
                           replyToMessageId = None, sentByUserId = None \<rparr>;
                     st3 = logWebhookEvent st2
                             \<lparr> we_headers = req_headers req, we_query = req_query req,
                               we_body = (if truthyJson (e_raw event) then LoggedJson (e_raw event)
                                          else LoggedEvent event),
                               we_status = 200, we_response = Text ''ok'',
                               we_messageId = Some (msg_id message) \<rparr>;
                     st4 = updateConversationLastAt st3 now (c_id conversation);
                     signedMessage = buildSignedMediaUrlsForMessage deps message;
                     st5 = broadcastMessage st4 ''message_incoming'' signedMessage
                 in (None,
                     (case e_media event of
                        None \<Rightarrow> st5
                      | Some d \<Rightarrow>
                          st5\<lparr> mediaIngestions :=
                                 mediaIngestions st5 @ [(msg_id message, c_id conversation, d)] \<rparr>)))))"

fun processEvents ::
  "collaborators \<Rightarrow> request \<Rightarrow> nat \<Rightarrow> IncomingMessageEvent list \<Rightarrow> state \<Rightarrow> error option \<times> state" where
  "processEvents deps req now [] st = (None, st)"
| "processEvents deps req now (event # events) st =
     (case processEvent deps req now event st of
        (Some err, st') \<Rightarrow> (Some err, st')
      | (None, st') \<Rightarrow> processEvents deps req now events st')"

text \<open>\<open>!!(instance?.appSecret || process.env.META_APP_SECRET)\<close>\<close>

definition hasAppSecret :: "environment \<Rightarrow> WhatsappInstanceConfig option \<Rightarrow> bool" where
  "hasAppSecret env inst =
     (case inst of
        None \<Rightarrow> truthyStr (META_APP_SECRET env)
      | Some i \<Rightarrow> truthyStr (i_appSecret i) \<or> truthyStr (META_APP_SECRET env))"

text \<open>\<open>(req as any).rawBody || JSON.stringify(req.body)\<close>: the bytes that are verified.\<close>

definition signedBytes :: "collaborators \<Rightarrow> request \<Rightarrow> string" where
  "signedBytes deps req =
     (if truthyStr (req_rawBody req) then the (req_rawBody req)
      else JSON_stringify deps (req_body req))"

text \<open>
  The signature gate: an app secret is configured and \<open>verifyWebhookSignature\<close> says no.
\<close>

definition signatureRejected ::
  "collaborators \<Rightarrow> environment \<Rightarrow> request \<Rightarrow> MetaProvider
     \<Rightarrow> WhatsappInstanceConfig option \<Rightarrow> bool" where
  "signatureRejected deps env req provider inst =
     (hasAppSecret env inst
      \<and> \<not> verifyWebhookSignature (hmacSha256Hex deps) provider
             (map_of (req_headers req) ''x-hub-signature-256'') (signedBytes deps req))"

definition requestLog :: "request \<Rightarrow> nat \<Rightarrow> response_body \<Rightarrow> WebhookEvent" where
  "requestLog req code summary =
     \<lparr> we_headers = req_headers req, we_query = req_query req,
       we_body = LoggedJson (req_body req),
       we_status = code, we_response = summary, we_messageId = None \<rparr>"

text \<open>The \<open>catch\<close> block of the handler.\<close>

definition webhookFailure :: "request \<Rightarrow> error \<Rightarrow> state \<Rightarrow> response \<times> state" where
  "webhookFailure req err st =
     (\<lparr> res_status = 500, res_body = ErrorOf err \<rparr>,
      logWebhookEvent st (requestLog req 500 (ErrorOf err)))"

definition handleMetaWebhookEvent ::
  "collaborators \<Rightarrow> environment \<Rightarrow> request \<Rightarrow> nat \<Rightarrow> state \<Rightarrow> response \<times> state" where
  "handleMetaWebhookEvent deps env req now st =
     (case createMetaProvider env st of
        Inl err \<Rightarrow> webhookFailure req err st
      | Inr (provider, inst) \<Rightarrow>
          (if signatureRejected deps env req provider inst then
             (\<lparr> res_status = 401, res_body = Text ''Invalid signature'' \<rparr>,
              logWebhookEvent st (requestLog req 401 (Text ''Invalid signature'')))
           else
             (case parseIncoming (timestampIso deps) (req_body req) of
                Inl err \<Rightarrow> webhookFailure req err st
              | Inr events \<Rightarrow>
                  (if length events = 0 then
                     (\<lparr> res_status = 200, res_body = Text ''ok - no events'' \<rparr>,
                      logWebhookEvent st (requestLog req 200 (Text ''ok - no events'')))
                   else
                     (case processEvents deps req now events st of
                        (Some err, st') \<Rightarrow> webhookFailure req err st'
                      | (None, st') \<Rightarrow>
                          (\<lparr> res_status = 200, res_body = Text ''ok'' \<rparr>, st'))))))"



subsection \<open>Dispatch to the provider (\<open>MetaProvider.send\<close>)\<close>

text \<open>
  The HTTP call is the parameter \<open>fetch\<close>, given the URL, the bearer token and the
  payload. Its outcome is a rejection (a network failure) or a response: the \<open>ok\<close> flag,
  the body as text, and the body as JSON when it parses.
\<close>

datatype fetchResult = FetchFailed | FetchResponse bool string "json option"

type_synonym fetcher = "string \<Rightarrow> string \<Rightarrow> messagePayload \<Rightarrow> fetchResult"

text \<open>\<open>v?.[0]\<close>\<close>

fun firstElement :: "jsval \<Rightarrow> jsval" where
  "firstElement (Some (JArr (x # xs))) = Some x"
| "firstElement (Some (JStr (c # cs))) = Some (JStr [c])"
| "firstElement (Some (JObj kvs)) = memberOf (JObj kvs) ''0''"
| "firstElement v = None"

text \<open>
  The result is what \<open>send\<close> returns or throws, together with the payload that went out
  when the HTTP call was made. The recipient is the conversation's phone as stored; a
  value that is not a string has no \<open>replace\<close> method.
\<close>

definition send ::
  "MetaProvider \<Rightarrow> fetcher \<Rightarrow> jsval \<Rightarrow> string option \<Rightarrow> string option
     \<Rightarrow> (error + jsval) \<times> messagePayload option" where
  "send p fetch to bodyText mediaUrl =
     (if token p = [] \<or> phoneNumberId p = [] then
        (Inl (Error ''Meta credentials not configured. Please set META_TOKEN and META_PHONE_NUMBER_ID environment variables.''),
         None)
      else
        (case to of
           Some (JStr phone) \<Rightarrow>
             (let payload = buildOutboundPayload phone bodyText mediaUrl;
                  url = ''https://graph.facebook.com/'' @ graphVersion p @ ''/''
                          @ phoneNumberId p @ ''/messages''
              in (case fetch url (token p) payload of
                    FetchFailed \<Rightarrow> Inl TypeError
                  | FetchResponse ok txt parsed \<Rightarrow>
                      (if \<not> ok then Inl (Error (''Meta API error: '' @ txt))
                       else
                         (case parsed of
                            None \<Rightarrow> Inl SyntaxError
                          | Some data \<Rightarrow>
                              (case getProp (Some data) ''messages'' of
                                 Inl err \<Rightarrow> Inl err
                               | Inr ms \<Rightarrow> Inr (optProp (firstElement ms) ''id'')))),
                  Some payload))
         | _ \<Rightarrow> (Inl TypeError, None)))"

subsection \<open>The send endpoint (\<open>POST /api/message/send\<close>)\<close>

text \<open>
  The request body as the handler's type assertion declares it. A falsy identifier (absent,
  \<open>null\<close> or empty) is \<open>None\<close>.
\<close>

record sendRequest =
  sr_to :: "string option"
  sr_body :: "string option"
  sr_media_url :: "string option"
  sr_conversationId :: "nat option"
  sr_replyToMessageId :: "nat option"
  sr_user :: "nat option"

definition badRequest :: "string \<Rightarrow> response" where
  "badRequest msg = \<lparr> res_status = 400, res_body = ErrorJson msg \<rparr>"

text \<open>The first part of the handler: the conversation the message goes to.\<close>

definition resolveConversation ::
  "sendRequest \<Rightarrow> nat \<Rightarrow> state \<Rightarrow> response + (Conversation \<times> state)" where
  "resolveConversation req now st =
     (if sr_conversationId req = None \<and> \<not> truthyStr (sr_to req) then
        Inl (badRequest ''conversationId or to is required.'')
      else if \<not> truthyStr (sr_body req) \<and> \<not> truthyStr (sr_media_url req) then
        Inl (badRequest ''body or media_url is required.'')
      else
        (case sr_conversationId req of
           Some cid \<Rightarrow>
             (case getConversationById st cid of
                None \<Rightarrow> Inl \<lparr> res_status = 404, res_body = ErrorJson ''Conversation not found.'' \<rparr>
              | Some c \<Rightarrow> Inr (c, st))
         | None \<Rightarrow>
             (if \<not> truthyStr (sr_to req) then
                Inl (badRequest ''Recipient phone number is required.'')
              else
                (case getConversationByPhone st (Some (JStr (the (sr_to req)))) of
                   Some c \<Rightarrow> Inr (c, st)
                 | None \<Rightarrow>
                     Inr (createConversation st now (Some (JStr (the (sr_to req)))) (sr_user req))))))"

text \<open>The second part: the reply target, when one is named.\<close>

definition checkReplyTarget :: "sendRequest \<Rightarrow> Conversation \<Rightarrow> state \<Rightarrow> response option" where
  "checkReplyTarget req conversation st =
     (case sr_replyToMessageId req of
        None \<Rightarrow> None
      | Some r \<Rightarrow>
          (case getMessageById st r of
             None \<Rightarrow> Some (badRequest ''Reply target not found.'')
           | Some messageTarget \<Rightarrow>
               (if conversationId messageTarget \<noteq> c_id conversation then
                  Some (badRequest ''Reply target belongs to a different conversation.'')
                else if direction messageTarget \<noteq> Inbound then
                  Some (badRequest ''You can only reply to incoming messages.'')
                else None)))"

text \<open>\<open>extension.replace(/^\./, "")\<close>: one leading dot is dropped.\<close>

definition replaceFirstDot :: "string \<Rightarrow> string" where
  "replaceFirstDot s = (case s of c # cs \<Rightarrow> (if c = CHR ''.'' then cs else s) | [] \<Rightarrow> [])"

definition extensionToMediaType :: "string option \<Rightarrow> string" where
  "extensionToMediaType extension =
     (if \<not> truthyStr extension then ''unknown''
      else
        (let ext = toLowerCase (replaceFirstDot (the extension))
         in if ext \<in> set [''jpg'', ''jpeg'', ''png'', ''gif'', ''webp'', ''heic'', ''heif'', ''svg'']
            then ''image''
            else if ext \<in> set [''mp4'', ''mov'', ''m4v'', ''webm'', ''avi'', ''mkv''] then ''video''
            else if ext \<in> set [''mp3'', ''wav'', ''m4a'', ''ogg'', ''aac''] then ''audio''
            else if ext \<in> set [''pdf'', ''doc'', ''docx'', ''xls'', ''xlsx'', ''ppt'', ''pptx'',
                                ''txt'', ''csv'', ''zip'', ''rar'', ''7z'']
            then ''document''
            else ''unknown''))"

text \<open>The descriptor stored with an outbound message that carries media.\<close>

definition outboundMedia ::
  "collaborators \<Rightarrow> string option \<Rightarrow> error + MessageMedia option" where
  "outboundMedia deps media_url =
     (let relativeMediaPath =
            (if truthyStr media_url then extractRelativeMediaPath deps (the media_url) else None);
          inferredFilename =
            (if truthyStr relativeMediaPath then Some (basename (the relativeMediaPath))
             else if truthyStr media_url then Some (basename (normalizedUrl (the media_url)))
             else None)
      in case getExtensionFromFilename (map_option JStr inferredFilename) of
           Inl err \<Rightarrow> Inl err
         | Inr extension \<Rightarrow>
             (let inferredMime =
                    (case (if truthyStr extension then getMimeTypeFromExtension deps (the extension)
                           else None) of
                       Some mt \<Rightarrow> Some mt
                     | None \<Rightarrow>
                         (if truthyStr extension then getMimeType deps (the extension) else None))
              in Inr (if truthyStr media_url then
                        Some \<lparr> m_origin = ''upload'',
                               m_type = extensionToMediaType extension,
                               m_status = ''ready'', m_provider = ''local'',
                               m_providerMediaId = None, m_mimeType = inferredMime,
                               m_filename = map_option JStr inferredFilename,
                               m_extension = extension,
                               m_url =
                                 Some (if truthyStr relativeMediaPath
                                       then toUrlPath deps (the relativeMediaPath)
                                       else splitHead CHR ''?'' (the media_url)),
                               m_downloadAttempts = 0 \<rparr>
                      else None)))"

text \<open>The URL handed to the provider for the media, if any.\<close>

definition providerMediaUrl :: "collaborators \<Rightarrow> string option \<Rightarrow> string option" where
  "providerMediaUrl deps media_url =
     (let relativeMediaPath =
            (if truthyStr media_url then extractRelativeMediaPath deps (the media_url) else None);
          providerMediaPath =
            (if truthyStr relativeMediaPath then Some (buildSignedMediaPath deps (the relativeMediaPath))
             else media_url)
      in if truthyStr providerMediaPath then Some (resolvePublicMediaUrl deps (the providerMediaPath))
         else None)"

definition serverError :: "error \<Rightarrow> response" where
  "serverError err = \<lparr> res_status = 500, res_body = ErrorOf err \<rparr>"

definition messageSend ::
  "collaborators \<Rightarrow> environment \<Rightarrow> fetcher \<Rightarrow> sendRequest \<Rightarrow> nat \<Rightarrow> state
     \<Rightarrow> response \<times> state" where
  "messageSend deps env fetch req now st =
     (case resolveConversation req now st of
        Inl refusal \<Rightarrow> (refusal, st)
      | Inr (conversation, st1) \<Rightarrow>
          (case checkReplyTarget req conversation st1 of
             Some refusal \<Rightarrow> (refusal, st1)
           | None \<Rightarrow>
               (case outboundMedia deps (sr_media_url req) of
                  Inl err \<Rightarrow> (serverError err, st1)
                | Inr mediaDescriptor \<Rightarrow>
                    (case createMetaProvider env st1 of
                       Inl err \<Rightarrow> (serverError err, st1)
                     | Inr (provider, inst) \<Rightarrow>
                         (let (providerResp, sentPayload) =
                                send provider fetch (c_phone conversation) (sr_body req)
                                  (providerMediaUrl deps (sr_media_url req));
                              st2 = (case sentPayload of
                                       None \<Rightarrow> st1
                                     | Some pl \<Rightarrow> st1\<lparr> dispatched := dispatched st1 @ [pl] \<rparr>);
                              sentId = (case providerResp of
                                          Inl err \<Rightarrow> None
                                        | Inr i \<Rightarrow> (if truthy i then i else None));
                              sendStatus = (case providerResp of
                                              Inl err \<Rightarrow> ''failed''
                                            | Inr i \<Rightarrow> ''sent'');
                              (message, st3) =
                                createMessage st2
                                  \<lparr> msg_id = 0, conversationId = c_id conversation,
                                    direction = Outbound,
                                    body = (if truthyStr (sr_body req)
                                            then Some (JStr (the (sr_body req))) else None),
                                    media = mediaDescriptor, providerMessageId = sentId,
                                    status = sendStatus, raw = None,
                                    replyToMessageId = sr_replyToMessageId req,
                                    sentByUserId = sr_user req \<rparr>;
                              st4 = updateConversationLastAt st3 now (c_id conversation);
                              payload =
                                buildSignedMediaUrlsForMessage deps
                                  (case getMessageWithReplyById st4 (msg_id message) of
                                     Some withReply \<Rightarrow> withReply
                                   | None \<Rightarrow> message)
                          in (\<lparr> res_status = 200, res_body = OkMessage payload \<rparr>,
                              broadcastMessage st4 ''message_outgoing'' payload))))))"

section \<open>Notions used in the properties\<close>



text \<open>
  The store hands out identities from its counter, so the identity of every stored
  message lies below the counter.
\<close>

definition identitiesFresh :: "state \<Rightarrow> bool" where
  "identitiesFresh st = (\<forall>m \<in> set (messages st). msg_id m < nextId st)"












subsection \<open>Example data\<close>

text \<open>
  Concrete values on which the handlers are run below. The digest is a stand-in: the
  examples depend only on which key and which bytes are handed to it. \<open>renderJson\<close>
  writes a JSON value without escapes and with the members in the given order; it plays
  the part of \<open>JSON.stringify\<close>, with which it agrees on the values used here.
\<close>

definition exampleEnv :: environment where
  "exampleEnv =
     \<lparr> META_TOKEN = Some ''EAAB-token'', META_PHONE_NUMBER_ID = Some ''105500'',
       META_VERIFY_TOKEN = Some ''verify-me'', META_APP_SECRET = None,
       META_GRAPH_VERSION = None \<rparr>"

definition securedEnv :: environment where
  "securedEnv = exampleEnv\<lparr> META_APP_SECRET := Some ''s3cret'' \<rparr>"

definition exampleDigest :: "string \<Rightarrow> string \<Rightarrow> string" where
  "exampleDigest key msg = key @ ''/'' @ msg"

fun joinWith :: "string \<Rightarrow> string list \<Rightarrow> string" where
  "joinWith sep [] = []"
| "joinWith sep [x] = x"
| "joinWith sep (x # y # ys) = x @ sep @ joinWith sep (y # ys)"

fun digitsOf :: "nat \<Rightarrow> string" where
  "digitsOf n = (if n < 10 then [char_of (48 + n)] else digitsOf (n div 10) @ [char_of (48 + n mod 10)])"

declare digitsOf.simps [simp del]

fun renderJson :: "json \<Rightarrow> string" where
  "renderJson JNull = ''null''"
| "renderJson (JBool b) = (if b then ''true'' else ''false'')"
| "renderJson (JNum n) = (if n < 0 then CHR ''-'' # digitsOf (nat (- n)) else digitsOf (nat n))"
| "renderJson (JStr s) = [CHR 0x22] @ s @ [CHR 0x22]"
| "renderJson (JArr xs) = ''['' @ joinWith '','' (map renderJson xs) @ '']''"
| "renderJson (JObj kvs) =
     ''{'' @ joinWith '','' (map (\<lambda>kv. [CHR 0x22] @ fst kv @ [CHR 0x22] @ '':'' @ renderJson (snd kv)) kvs) @ ''}''"

definition exampleCollaborators :: collaborators where
  "exampleCollaborators =
     \<lparr> hmacSha256Hex = exampleDigest,
       JSON_stringify = renderJson,
       timestampIso = (\<lambda>t. Inr ''2023-11-14T22:13:20.000Z''),
       getExtensionFromMime = (\<lambda>v. Inr None),
       normalizeMimeType = (\<lambda>v. Inr None),
       getMimeTypeFromExtension = (\<lambda>e. None),
       getMimeType = (\<lambda>e. None),
       buildSignedMediaUrlsForMessage = (\<lambda>m. m),
       extractRelativeMediaPath = (\<lambda>u. None),
       buildSignedMediaPath = (\<lambda>p. p),
       toUrlPath = (\<lambda>p. p),
       resolvePublicMediaUrl = (\<lambda>p. p) \<rparr>"

definition emptyState :: state where
  "emptyState =
     \<lparr> defaultInstance = None, conversations = [], messages = [], webhookEvents = [],
       nextId = 1, broadcasts = [], mediaIngestions = [], dispatched = [] \<rparr>"

text \<open>
  A delivery with one message of a type the adapter does not know, the event it
  normalises to, and the store after its first delivery.
\<close>

definition stickerMessage :: json where
  "stickerMessage =
     JObj [(''from'', JStr ''15550001''), (''id'', JStr ''wamid.A1''),
           (''timestamp'', JStr ''1700000000''), (''type'', JStr ''sticker'')]"

definition examplePayload :: json where
  "examplePayload =
     JObj [(''object'', JStr ''whatsapp_business_account''),
           (''entry'',
            JArr [JObj [(''id'', JStr ''0''),
                        (''changes'',
                         JArr [JObj [(''field'', JStr ''messages''),
                                     (''value'', JObj [(''messages'', JArr [stickerMessage])])]])]])]"
















text \<open>A media URL whose extension is \<open>.MKV\<close> written with U+212A KELVIN SIGN.\<close>

definition kelvinUrl :: string where
  "kelvinUrl = ''https://cdn.example/a'' @ ''/'' @ ''clip'' @ ''.'' @ (''M'' @ kelvinSign @ ''V'') @ ''?sig=1''"


definition exampleProvider :: MetaProvider where
  "exampleProvider =
     newMetaProvider exampleEnv (META_TOKEN exampleEnv) (META_PHONE_NUMBER_ID exampleEnv)
       (META_VERIFY_TOKEN exampleEnv) (META_APP_SECRET exampleEnv) (META_GRAPH_VERSION exampleEnv)"

definition securedProvider :: MetaProvider where
  "securedProvider =
     newMetaProvider securedEnv (META_TOKEN securedEnv) (META_PHONE_NUMBER_ID securedEnv)
       (META_VERIFY_TOKEN securedEnv) (META_APP_SECRET securedEnv) (META_GRAPH_VERSION securedEnv)"

text \<open>
  Requests with an empty object as body: unsigned, signed over the captured raw body, and
  one without a captured raw body whose signature is taken over the rendered body.
\<close>

definition emptyBodyRequest :: request where
  "emptyBodyRequest =
     \<lparr> req_headers = [], req_query = [], req_body = JObj [], req_rawBody = Some ''{}'' \<rparr>"

definition signedRequest :: request where
  "signedRequest =
     emptyBodyRequest\<lparr> req_headers := [(''x-hub-signature-256'', ''sha256=s3cret/{}'')] \<rparr>"

definition resignedRequest :: request where
  "resignedRequest =
     \<lparr> req_headers =
         [(''x-hub-signature-256'', ''sha256='' @ exampleDigest ''s3cret'' (renderJson examplePayload))],
       req_query = [], req_body = examplePayload, req_rawBody = None \<rparr>"

text \<open>A default instance that is switched off, and verification requests.\<close>

definition disabledInstance :: WhatsappInstanceConfig where
  "disabledInstance =
     \<lparr> i_isActive = Some False, i_accessToken = Some ''EAAB-token'',
       i_phoneNumberId = Some ''105500'', i_webhookVerifyToken = Some ''verify-me'',
       i_appSecret = None \<rparr>"

definition disabledState :: state where
  "disabledState = emptyState\<lparr> defaultInstance := Some disabledInstance \<rparr>"

definition subscribeRequest :: request where
  "subscribeRequest =
     \<lparr> req_headers = [],
       req_query = [(''hub.mode'', QStr ''subscribe''), (''hub.verify_token'', QStr ''verify-me''),
                    (''hub.challenge'', QStr ''123'')],
       req_body = JObj [], req_rawBody = None \<rparr>"

definition wrongTokenRequest :: request where
  "wrongTokenRequest =
     subscribeRequest\<lparr> req_query :=
       [(''hub.mode'', QStr ''subscribe''), (''hub.verify_token'', QStr ''guess''),
        (''hub.challenge'', QStr ''123'')] \<rparr>"

definition probeRequest :: request where
  "probeRequest = subscribeRequest\<lparr> req_query := [] \<rparr>"

text \<open>Send requests, and a provider endpoint that answers with a failure status.\<close>

definition failingFetch :: fetcher where
  "failingFetch url bearer payload = FetchResponse False ''upstream unavailable'' None"

definition helloRequest :: sendRequest where
  "helloRequest =
     \<lparr> sr_to = Some ''+1 555 0001'', sr_body = Some ''hello'', sr_media_url = None,
       sr_conversationId = None, sr_replyToMessageId = None, sr_user = Some 7 \<rparr>"

definition helloConversation :: Conversation where
  "helloConversation =
     \<lparr> c_id = 1, c_phone = Some (JStr ''+1 555 0001''), c_lastAt = 100,
       c_createdByUserId = Some 7 \<rparr>"

definition stateAfterHello :: state where
  "stateAfterHello =
     snd (messageSend exampleCollaborators exampleEnv failingFetch helloRequest 100 emptyState)"

definition replyRequest :: sendRequest where
  "replyRequest = helloRequest\<lparr> sr_body := Some ''again'', sr_replyToMessageId := Some 2 \<rparr>"

definition danglingRequest :: sendRequest where
  "danglingRequest =
     \<lparr> sr_to = None, sr_body = Some ''hello'', sr_media_url = None,
       sr_conversationId = Some 99, sr_replyToMessageId = Some 5, sr_user = None \<rparr>"

section \<open>Properties\<close>

subsection \<open>The provider adapter\<close>

text \<open>
  C3. The signature check has an asymmetric bypass: with no app secret configured it
  passes, whether or not there is a signature header; with an app secret configured and
  the header absent (or empty) it fails. A provider has no app secret exactly when neither
  the constructor argument nor \<open>META_APP_SECRET\<close> is set.
\<close>

theorem verifySignature_bypass_policy:
  "(appSecret p = [] \<longrightarrow> verifyWebhookSignature hmac p sig rawBody)
   \<and> (appSecret p \<noteq> [] \<and> \<not> truthyStr sig \<longrightarrow> \<not> verifyWebhookSignature hmac p sig rawBody)
   \<and> (appSecret (newMetaProvider env tok pid vtok secret gv) = []
        \<longleftrightarrow> \<not> truthyStr secret \<and> \<not> truthyStr (META_APP_SECRET env))"
  by (auto simp add: verifyWebhookSignature_def newMetaProvider_def orEmpty_def truthyStr_def
        split: option.splits)

theorem verifySignature_bypass_policy_witness:
  "appSecret (newMetaProvider exampleEnv None None None None None) = []
   \<and> verifyWebhookSignature exampleDigest (newMetaProvider exampleEnv None None None None None)
        (Some ''sha256=00'') ''{}''
   \<and> verifyWebhookSignature exampleDigest (newMetaProvider exampleEnv None None None None None)
        None ''{}''
   \<and> appSecret (newMetaProvider securedEnv None None None None None) \<noteq> []
   \<and> \<not> truthyStr None
   \<and> \<not> verifyWebhookSignature exampleDigest (newMetaProvider securedEnv None None None None None)
          None ''{}''"
proof -
  have none: "\<not> truthyStr None"
    by (simp add: truthyStr_def)
  have open_secret: "appSecret (newMetaProvider exampleEnv None None None None None) = []"
    by (simp add: newMetaProvider_def exampleEnv_def orEmpty_def truthyStr_def)
  have set_secret: "appSecret (newMetaProvider securedEnv None None None None None) \<noteq> []"
    by (simp add: newMetaProvider_def securedEnv_def exampleEnv_def orEmpty_def truthyStr_def)
  have with_header:
    "verifyWebhookSignature exampleDigest (newMetaProvider exampleEnv None None None None None)
       (Some ''sha256=00'') ''{}''"
    using verifySignature_bypass_policy
            [of "newMetaProvider exampleEnv None None None None None"] open_secret
    by blast
  have without_header:
    "verifyWebhookSignature exampleDigest (newMetaProvider exampleEnv None None None None None)
       None ''{}''"
    using verifySignature_bypass_policy
            [of "newMetaProvider exampleEnv None None None None None"] open_secret
    by blast
  have rejected:
    "\<not> verifyWebhookSignature exampleDigest (newMetaProvider securedEnv None None None None None)
         None ''{}''"
    using verifySignature_bypass_policy
            [of "newMetaProvider securedEnv None None None None None" _ None] set_secret none
    by blast
  show ?thesis
    using none open_secret set_secret with_header without_header rejected by blast
qed

text \<open>
  The extension of a path that ends in the segment \<open>stem.tail\<close>, and of a URL that ends
  in it before its query or fragment.
\<close>

lemma takeWhile_upto: "c \<notin> set xs \<Longrightarrow> takeWhile (\<lambda>x. x \<noteq> c) (xs @ c # ys) = xs"
  by (induction xs) auto

lemma takeWhile_whole: "c \<notin> set xs \<Longrightarrow> takeWhile (\<lambda>x. x \<noteq> c) xs = xs"
  by (induction xs) auto

lemma basename_segment:
  assumes "seg \<noteq> []" "CHR ''/'' \<notin> set seg"
  shows "basename (dir @ CHR ''/'' # seg) = seg"
proof -
  from assms(1) have "last seg \<in> set seg" by simp
  with assms(2) have "last seg \<noteq> CHR ''/''" by metis
  with assms(1) have "rev seg \<noteq> []" "hd (rev seg) \<noteq> CHR ''/''"
    by (simp_all add: hd_rev)
  then have "dropWhile (\<lambda>c. c = CHR ''/'') (rev seg @ CHR ''/'' # rev dir)
               = rev seg @ CHR ''/'' # rev dir"
    by (cases "rev seg") simp_all
  moreover from assms(2)
  have "takeWhile (\<lambda>c. c \<noteq> CHR ''/'') (rev seg @ CHR ''/'' # rev dir) = rev seg"
    by (simp add: takeWhile_upto)
  ultimately show ?thesis
    by (simp add: basename_def)
qed

lemma extname_segment:
  assumes "stem \<noteq> []" "tail \<noteq> []" "CHR ''.'' \<notin> set tail" "CHR ''/'' \<notin> set (stem @ tail)"
  shows "extname (dir @ CHR ''/'' # stem @ CHR ''.'' # tail) = CHR ''.'' # tail"
proof -
  let ?seg = "stem @ CHR ''.'' # tail"
  from assms have "basename (dir @ CHR ''/'' # ?seg) = ?seg"
    by (intro basename_segment) auto
  moreover from assms(3) have "takeWhile (\<lambda>c. c \<noteq> CHR ''.'') (rev ?seg) = rev tail"
    by (simp add: takeWhile_upto)
  moreover from assms have "?seg \<noteq> ''..''"
    by (cases stem; cases tail) auto
  ultimately show ?thesis using assms
    by (simp add: extname_def Let_def)
qed

lemma normalizedUrl_prefix:
  assumes "CHR ''?'' \<notin> set base" "CHR ''#'' \<notin> set base"
    and "rest = [] \<or> hd rest = CHR ''?'' \<or> hd rest = CHR ''#''"
  shows "normalizedUrl (base @ rest) = base"
proof (cases rest)
  case Nil
  with assms show ?thesis
    by (simp add: normalizedUrl_def splitHead_def takeWhile_whole)
next
  case (Cons c cs)
  with assms(3) have "c = CHR ''?'' \<or> c = CHR ''#''" by simp
  then show ?thesis
  proof
    assume "c = CHR ''?''"
    with Cons assms show ?thesis
      by (simp add: normalizedUrl_def splitHead_def takeWhile_upto takeWhile_whole)
  next
    assume c: "c = CHR ''#''"
    from assms(1) have "takeWhile (\<lambda>x. x \<noteq> CHR ''?'') (base @ CHR ''#'' # cs)
                          = base @ CHR ''#'' # takeWhile (\<lambda>x. x \<noteq> CHR ''?'') cs"
      by (induction base) auto
    with Cons c assms(2) show ?thesis
      by (simp add: normalizedUrl_def splitHead_def takeWhile_upto)
  qed
qed

lemma mediaExtension_suffix:
  assumes "stem \<noteq> []" "tail \<noteq> []" "CHR ''.'' \<notin> set tail" "CHR ''/'' \<notin> set (stem @ tail)"
    and "CHR ''?'' \<notin> set (dir @ stem @ tail)" "CHR ''#'' \<notin> set (dir @ stem @ tail)"
    and "rest = [] \<or> hd rest = CHR ''?'' \<or> hd rest = CHR ''#''"
  shows "mediaExtension (dir @ ''/'' @ stem @ ''.'' @ tail @ rest) = toLowerCase (''.'' @ tail)"
proof -
  let ?base = "dir @ CHR ''/'' # stem @ CHR ''.'' # tail"
  from assms have "normalizedUrl (?base @ rest) = ?base"
    by (intro normalizedUrl_prefix) auto
  moreover from assms have "extname ?base = CHR ''.'' # tail"
    by (intro extname_segment) auto
  ultimately show ?thesis
    by (simp add: mediaExtension_def)
qed

text \<open>Lower-casing an ASCII string maps it byte by byte.\<close>

lemma toLowerCase_ascii: "list_all isAscii s \<Longrightarrow> toLowerCase s = map lowerChar s"
proof (induction s)
  case Nil
  show ?case by (simp add: toLowerCase.simps)
next
  case (Cons c cs)
  from Cons.prems have "c \<noteq> CHR 0xE2" "c \<noteq> CHR 0xC4"
    by (auto simp add: isAscii_def)
  then have "take 3 (c # cs) \<noteq> kelvinSign" "take 2 (c # cs) \<noteq> capitalIWithDotAbove"
    by (auto simp add: kelvinSign_def capitalIWithDotAbove_def)
  with Cons show ?case
    by (simp add: toLowerCase.simps)
qed

lemma toLowerCase_extension:
  "list_all isAscii tail \<Longrightarrow> toLowerCase (''.'' @ tail) = ''.'' @ map lowerChar tail"
proof -
  assume "list_all isAscii tail"
  then have "list_all isAscii (''.'' @ tail)"
    by (simp add: isAscii_def)
  from toLowerCase_ascii [OF this] show ?thesis
    by (simp add: lowerChar_def)
qed

text \<open>
  C7. The payload construction of \<open>send\<close> picks the message kind from the media URL's
  extension alone (the lower-cased \<open>path.extname\<close> of the URL without query and fragment):
  image, video or audio when the extension is in the respective set, document otherwise,
  in particular for every extension that is in none of the four sets or is empty. Two
  calls with media whose extensions agree get the same kind, whatever the recipient and
  the body. A call with a body and no media URL gets the kind text. The extension of a
  URL that ends, before its query or fragment, in a path segment \<open>stem.tail\<close> is
  \<open>.tail\<close> lower-cased, which for an ASCII \<open>tail\<close> is \<open>.tail\<close> with its capital
  letters made small.
\<close>

theorem buildOutboundPayload_kind:
  "(truthyStr mediaUrl \<longrightarrow>
      type_field (buildOutboundPayload to bodyText mediaUrl) =
        Some (if mediaExtension (the mediaUrl) \<in> set asImage then ''image''
              else if mediaExtension (the mediaUrl) \<in> set asVideo then ''video''
              else if mediaExtension (the mediaUrl) \<in> set asAudio then ''audio''
              else ''document''))
   \<and> (truthyStr mediaUrl
        \<and> mediaExtension (the mediaUrl) \<notin> set (asImage @ asVideo @ asAudio @ asDocument)
        \<longrightarrow> type_field (buildOutboundPayload to bodyText mediaUrl) = Some ''document'')
   \<and> (truthyStr mediaUrl \<and> truthyStr otherUrl
        \<and> mediaExtension (the mediaUrl) = mediaExtension (the otherUrl)
        \<longrightarrow> type_field (buildOutboundPayload to bodyText mediaUrl)
              = type_field (buildOutboundPayload otherTo otherBody otherUrl))
   \<and> (\<not> truthyStr mediaUrl \<and> truthyStr bodyText
        \<longrightarrow> type_field (buildOutboundPayload to bodyText mediaUrl) = Some ''text'')
   \<and> (stem \<noteq> [] \<and> tail \<noteq> [] \<and> CHR ''.'' \<notin> set tail \<and> CHR ''/'' \<notin> set (stem @ tail)
        \<and> CHR ''?'' \<notin> set (dir @ stem @ tail) \<and> CHR ''#'' \<notin> set (dir @ stem @ tail)
        \<and> (query = [] \<or> hd query = CHR ''?'' \<or> hd query = CHR ''#'')
        \<longrightarrow> mediaExtension (dir @ ''/'' @ stem @ ''.'' @ tail @ query) = toLowerCase (''.'' @ tail)
            \<and> (list_all isAscii tail
                 \<longrightarrow> mediaExtension (dir @ ''/'' @ stem @ ''.'' @ tail @ query)
                       = ''.'' @ map lowerChar tail))"
proof -
  have kinds:
    "(truthyStr mediaUrl \<longrightarrow>
      type_field (buildOutboundPayload to bodyText mediaUrl) =
        Some (if mediaExtension (the mediaUrl) \<in> set asImage then ''image''
              else if mediaExtension (the mediaUrl) \<in> set asVideo then ''video''
              else if mediaExtension (the mediaUrl) \<in> set asAudio then ''audio''
              else ''document''))
   \<and> (truthyStr mediaUrl
        \<and> mediaExtension (the mediaUrl) \<notin> set (asImage @ asVideo @ asAudio @ asDocument)
        \<longrightarrow> type_field (buildOutboundPayload to bodyText mediaUrl) = Some ''document'')
   \<and> (truthyStr mediaUrl \<and> truthyStr otherUrl
        \<and> mediaExtension (the mediaUrl) = mediaExtension (the otherUrl)
        \<longrightarrow> type_field (buildOutboundPayload to bodyText mediaUrl)
              = type_field (buildOutboundPayload otherTo otherBody otherUrl))
   \<and> (\<not> truthyStr mediaUrl \<and> truthyStr bodyText
        \<longrightarrow> type_field (buildOutboundPayload to bodyText mediaUrl) = Some ''text'')"
    by (simp add: buildOutboundPayload_def Let_def)
  have suffix:
    "stem \<noteq> [] \<and> tail \<noteq> [] \<and> CHR ''.'' \<notin> set tail \<and> CHR ''/'' \<notin> set (stem @ tail)
        \<and> CHR ''?'' \<notin> set (dir @ stem @ tail) \<and> CHR ''#'' \<notin> set (dir @ stem @ tail)
        \<and> (query = [] \<or> hd query = CHR ''?'' \<or> hd query = CHR ''#'')
        \<longrightarrow> mediaExtension (dir @ ''/'' @ stem @ ''.'' @ tail @ query) = toLowerCase (''.'' @ tail)
            \<and> (list_all isAscii tail
                 \<longrightarrow> mediaExtension (dir @ ''/'' @ stem @ ''.'' @ tail @ query)
                       = ''.'' @ map lowerChar tail)"
    using mediaExtension_suffix [of stem tail dir query] toLowerCase_extension [of tail] by auto
  from kinds suffix show ?thesis by blast
qed

theorem buildOutboundPayload_kind_witness:
  "type_field (buildOutboundPayload ''+1 555 0100'' (Some ''look'')
                 (Some ''https://cdn.example/a/Photo.JPG?sig=1'')) = Some ''image''
   \<and> mediaExtension ''https://cdn.example/files/archive.tar.xz''
        \<notin> set (asImage @ asVideo @ asAudio @ asDocument)
   \<and> type_field (buildOutboundPayload ''+1 555 0100'' None
                   (Some ''https://cdn.example/files/archive.tar.xz'')) = Some ''document''
   \<and> mediaExtension ''https://cdn.example/files/blob'' = []
   \<and> type_field (buildOutboundPayload ''+1 555 0100'' None
                   (Some ''https://cdn.example/files/blob'')) = Some ''document''
   \<and> type_field (buildOutboundPayload ''+1 555 0100'' (Some ''hello'') None) = Some ''text''
   \<and> mediaExtension kelvinUrl = ''.mkv''
   \<and> type_field (buildOutboundPayload ''+1 555 0100'' None (Some kelvinUrl)) = Some ''video''
   \<and> mediaExtension (''https://cdn.example/a'' @ ''/'' @ ''Photo'' @ ''.'' @ ''JPG'' @ ''?sig=1'')
        = ''.jpg''
   \<and> type_field (buildOutboundPayload ''+1 555 0100'' (Some ''look'')
                   (Some ''https://cdn.example/a/Photo.JPG?sig=1''))
        = type_field (buildOutboundPayload ''+1 555 0199'' None
                        (Some ''https://other.example/x.jpg#top''))"
proof -
  have e1: "mediaExtension ''https://cdn.example/a/Photo.JPG?sig=1'' \<in> set asImage"
    by code_simp
  have e2: "mediaExtension ''https://cdn.example/files/archive.tar.xz''
              \<notin> set (asImage @ asVideo @ asAudio @ asDocument)"
    by code_simp
  have e3: "mediaExtension ''https://cdn.example/files/blob'' = []"
    by code_simp
  have n3: "mediaExtension ''https://cdn.example/files/blob''
              \<notin> set (asImage @ asVideo @ asAudio @ asDocument)"
    by code_simp
  have present: "truthyStr (Some ''https://cdn.example/a/Photo.JPG?sig=1'')"
    "truthyStr (Some ''https://cdn.example/files/archive.tar.xz'')"
    "truthyStr (Some ''https://cdn.example/files/blob'')"
    "truthyStr (Some kelvinUrl)" "truthyStr (Some ''hello'')" "\<not> truthyStr None"
    "truthyStr (Some ''https://other.example/x.jpg#top'')"
    by code_simp+
  have same: "mediaExtension (the (Some ''https://cdn.example/a/Photo.JPG?sig=1''))
                = mediaExtension (the (Some ''https://other.example/x.jpg#top''))"
    by code_simp
  from buildOutboundPayload_kind
         [where mediaUrl = "Some ''https://cdn.example/a/Photo.JPG?sig=1''"
            and to = "''+1 555 0100''" and bodyText = "Some ''look''",
          THEN conjunct1, THEN mp, OF present(1)]
  have a: "type_field (buildOutboundPayload ''+1 555 0100'' (Some ''look'')
                         (Some ''https://cdn.example/a/Photo.JPG?sig=1'')) = Some ''image''"
    by (simp only: option.sel e1 if_True)
  from buildOutboundPayload_kind
         [where mediaUrl = "Some ''https://cdn.example/files/archive.tar.xz''"
            and to = "''+1 555 0100''" and bodyText = None,
          THEN conjunct2, THEN conjunct1, THEN mp] present(2) e2
  have b: "type_field (buildOutboundPayload ''+1 555 0100'' None
                         (Some ''https://cdn.example/files/archive.tar.xz'')) = Some ''document''"
    by (simp only: option.sel simp_thms)
  from buildOutboundPayload_kind
         [where mediaUrl = "Some ''https://cdn.example/files/blob''"
            and to = "''+1 555 0100''" and bodyText = None,
          THEN conjunct2, THEN conjunct1, THEN mp] present(3) n3
  have c: "type_field (buildOutboundPayload ''+1 555 0100'' None
                         (Some ''https://cdn.example/files/blob'')) = Some ''document''"
    by (simp only: option.sel simp_thms)
  from buildOutboundPayload_kind
         [where mediaUrl = None and to = "''+1 555 0100''" and bodyText = "Some ''hello''",
          THEN conjunct2, THEN conjunct2, THEN conjunct2, THEN conjunct1, THEN mp]
       present(5,6)
  have d: "type_field (buildOutboundPayload ''+1 555 0100'' (Some ''hello'') None) = Some ''text''"
    by (simp only: simp_thms)
  have shape: "''clip'' \<noteq> [] \<and> ''M'' @ kelvinSign @ ''V'' \<noteq> []
    \<and> CHR ''.'' \<notin> set (''M'' @ kelvinSign @ ''V'')
    \<and> CHR ''/'' \<notin> set (''clip'' @ ''M'' @ kelvinSign @ ''V'')
    \<and> CHR ''?'' \<notin> set (''https://cdn.example/a'' @ ''clip'' @ ''M'' @ kelvinSign @ ''V'')
    \<and> CHR ''#'' \<notin> set (''https://cdn.example/a'' @ ''clip'' @ ''M'' @ kelvinSign @ ''V'')
    \<and> (''?sig=1'' = [] \<or> hd ''?sig=1'' = CHR ''?'' \<or> hd ''?sig=1'' = CHR ''#'')"
    by code_simp
  have lowered: "toLowerCase (''.'' @ ''M'' @ kelvinSign @ ''V'') = ''.mkv''"
    by code_simp
  have video: "''.mkv'' \<in> set asImage \<longleftrightarrow> False" "''.mkv'' \<in> set asVideo \<longleftrightarrow> True"
    by code_simp+
  from buildOutboundPayload_kind
         [where stem = "''clip''" and tail = "''M'' @ kelvinSign @ ''V''"
            and dir = "''https://cdn.example/a''" and query = "''?sig=1''",
          THEN conjunct2, THEN conjunct2, THEN conjunct2, THEN conjunct2, THEN mp, OF shape,
          THEN conjunct1]
  have e4: "mediaExtension kelvinUrl = ''.mkv''"
    by (simp only: kelvinUrl_def lowered)
  have photo: "''Photo'' \<noteq> [] \<and> ''JPG'' \<noteq> []
    \<and> CHR ''.'' \<notin> set ''JPG''
    \<and> CHR ''/'' \<notin> set (''Photo'' @ ''JPG'')
    \<and> CHR ''?'' \<notin> set (''https://cdn.example/a'' @ ''Photo'' @ ''JPG'')
    \<and> CHR ''#'' \<notin> set (''https://cdn.example/a'' @ ''Photo'' @ ''JPG'')
    \<and> (''?sig=1'' = [] \<or> hd ''?sig=1'' = CHR ''?'' \<or> hd ''?sig=1'' = CHR ''#'')"
    and ascii: "list_all isAscii ''JPG''"
    and small: "''.'' @ map lowerChar ''JPG'' = ''.jpg''"
    by code_simp+
  from buildOutboundPayload_kind
         [where stem = "''Photo''" and tail = "''JPG''"
            and dir = "''https://cdn.example/a''" and query = "''?sig=1''",
          THEN conjunct2, THEN conjunct2, THEN conjunct2, THEN conjunct2, THEN mp, OF photo,
          THEN conjunct2, THEN mp, OF ascii]
  have g: "mediaExtension (''https://cdn.example/a'' @ ''/'' @ ''Photo'' @ ''.'' @ ''JPG'' @ ''?sig=1'')
             = ''.jpg''"
    by (simp only: small)
  from buildOutboundPayload_kind
         [where mediaUrl = "Some kelvinUrl" and to = "''+1 555 0100''" and bodyText = None,
          THEN conjunct1, THEN mp, OF present(4)]
  have f: "type_field (buildOutboundPayload ''+1 555 0100'' None (Some kelvinUrl)) = Some ''video''"
    by (simp only: option.sel e4 video if_True if_False)
  from buildOutboundPayload_kind
         [where mediaUrl = "Some ''https://cdn.example/a/Photo.JPG?sig=1''"
            and to = "''+1 555 0100''" and bodyText = "Some ''look''"
            and otherUrl = "Some ''https://other.example/x.jpg#top''"
            and otherTo = "''+1 555 0199''" and otherBody = None,
          THEN conjunct2, THEN conjunct2, THEN conjunct1, THEN mp,
          OF conjI [OF present(1) conjI [OF present(7) same]]]
  have h: "type_field (buildOutboundPayload ''+1 555 0100'' (Some ''look'')
                   (Some ''https://cdn.example/a/Photo.JPG?sig=1''))
        = type_field (buildOutboundPayload ''+1 555 0199'' None
                        (Some ''https://other.example/x.jpg#top''))" .
  show ?thesis
    by (intro conjI) (rule a e2 b e3 c d e4 f g h)+
qed

subsection \<open>Facts about the webhook handler\<close>

lemma orEmpty_eq_Nil: "orEmpty a b = [] \<longleftrightarrow> \<not> truthyStr a \<and> \<not> truthyStr b"
  by (cases a; cases b) (simp_all add: orEmpty_def truthyStr_def)

lemma createMetaProvider_secret:
  assumes "createMetaProvider env st = Inr (p, inst)"
  shows "hasAppSecret env inst = (appSecret p \<noteq> [])"
proof (cases "defaultInstance st")
  case None
  with assms have "p = newMetaProvider env (META_TOKEN env) (META_PHONE_NUMBER_ID env)
                 (META_VERIFY_TOKEN env) (META_APP_SECRET env) (META_GRAPH_VERSION env)" "inst = None"
    by (simp_all add: createMetaProvider_def)
  then show ?thesis
    by (simp add: hasAppSecret_def newMetaProvider_def orEmpty_eq_Nil)
next
  case (Some i)
  with assms have "p = newMetaProvider env (i_accessToken i) (i_phoneNumberId i)
                    (i_webhookVerifyToken i) (i_appSecret i) None" "inst = Some i"
    by (simp_all add: createMetaProvider_def split: if_splits)
  then show ?thesis
    by (simp add: hasAppSecret_def newMetaProvider_def orEmpty_eq_Nil)
qed

lemma nullish_truthy: "truthy v \<Longrightarrow> nullish v None = v"
proof (cases v)
  case None
  then show ?thesis by simp
next
  case (Some j)
  then show "truthy v \<Longrightarrow> nullish v None = v"
    by (cases j) (simp_all add: truthy_def)
qed

lemma isDuplicate_iff:
  "isDuplicate st ev \<longleftrightarrow>
     truthy (e_providerMessageId ev)
     \<and> (\<exists>m \<in> set (messages st). providerMessageId m = e_providerMessageId ev)"
  by (auto simp add: isDuplicate_def getMessageByProviderMessageId_def find_None_iff)

lemma isDuplicate_mono:
  "isDuplicate st ev \<Longrightarrow> messages st' = messages st @ xs \<Longrightarrow> isDuplicate st' ev"
  by (auto simp add: isDuplicate_iff)

lemma processEvent_duplicate:
  "isDuplicate st ev \<Longrightarrow> processEvent deps req now ev st = (None, st)"
  by (simp add: processEvent_def)

lemmas processEvent_unfold =
  processEvent_def createConversation_def createMessage_def logWebhookEvent_def
  updateConversationLastAt_def broadcastMessage_def Let_def

lemma processEvent_failed:
  assumes "fst (processEvent deps req now ev st) = Some err"
  shows "messages (snd (processEvent deps req now ev st)) = messages st
       \<and> broadcasts (snd (processEvent deps req now ev st)) = broadcasts st
       \<and> webhookEvents (snd (processEvent deps req now ev st)) = webhookEvents st
       \<and> defaultInstance (snd (processEvent deps req now ev st)) = defaultInstance st"
  using assms
  by (cases "isDuplicate st ev"; cases "getConversationByPhone st (e_from ev)";
        cases "createPendingMediaDescriptor deps (e_media ev)"; cases "e_media ev")
       (simp_all add: processEvent_unfold)

lemma processEvent_persisted:
  assumes "fst (processEvent deps req now ev st) = None"
    and "\<not> isDuplicate st ev"
  shows "\<exists>m. messages (snd (processEvent deps req now ev st)) = messages st @ [m]
            \<and> providerMessageId m = nullish (e_providerMessageId ev) None
            \<and> direction m = Inbound \<and> status m = ''received''
            \<and> body m = nullish (e_body ev) None
            \<and> broadcasts (snd (processEvent deps req now ev st))
                 = broadcasts st @ [(''message_incoming'', buildSignedMediaUrlsForMessage deps m)]
            \<and> length (webhookEvents (snd (processEvent deps req now ev st)))
                 = Suc (length (webhookEvents st))
            \<and> defaultInstance (snd (processEvent deps req now ev st)) = defaultInstance st"
  using assms
  by (cases "getConversationByPhone st (e_from ev)";
      cases "createPendingMediaDescriptor deps (e_media ev)"; cases "e_media ev")
     (simp_all add: processEvent_unfold)

lemma processEvent_grows:
  "\<exists>xs. messages (snd (processEvent deps req now ev st)) = messages st @ xs"
proof (cases "fst (processEvent deps req now ev st)")
  case (Some err)
  then show ?thesis using processEvent_failed [of deps req now ev st err] by simp
next
  case None
  show ?thesis
  proof (cases "isDuplicate st ev")
    case True
    then show ?thesis by (simp add: processEvent_duplicate)
  next
    case False
    with None processEvent_persisted [of deps req now ev st] show ?thesis by blast
  qed
qed

lemma processEvent_then_duplicate:
  assumes "fst (processEvent deps req now ev st) = None" "truthy (e_providerMessageId ev)"
  shows "isDuplicate (snd (processEvent deps req now ev st)) ev"
proof (cases "isDuplicate st ev")
  case True
  then show ?thesis by (simp add: processEvent_duplicate)
next
  case False
  with assms processEvent_persisted [of deps req now ev st]
  obtain m where "messages (snd (processEvent deps req now ev st)) = messages st @ [m]"
    "providerMessageId m = nullish (e_providerMessageId ev) None" by blast
  with assms(2) show ?thesis
    by (simp add: isDuplicate_iff nullish_truthy)
qed

lemma processEvents_grows:
  "\<exists>xs. messages (snd (processEvents deps req now evs st)) = messages st @ xs"
proof (induction evs arbitrary: st)
  case Nil
  show ?case by simp
next
  case (Cons ev evs)
  obtain r st1 where step: "processEvent deps req now ev st = (r, st1)"
    by (cases "processEvent deps req now ev st")
  from processEvent_grows [of deps req now ev st] step
  obtain xs where xs: "messages st1 = messages st @ xs" by auto
  show ?case
  proof (cases r)
    case (Some err)
    with step xs show ?thesis by simp
  next
    case None
    from Cons.IH [of st1] obtain ys where
      "messages (snd (processEvents deps req now evs st1)) = messages st1 @ ys" by blast
    with None step xs show ?thesis by simp
  qed
qed

lemma processEvents_then_duplicates:
  assumes "fst (processEvents deps req now evs st) = None"
  shows "\<forall>ev \<in> set evs. truthy (e_providerMessageId ev)
           \<longrightarrow> isDuplicate (snd (processEvents deps req now evs st)) ev"
  using assms
proof (induction evs arbitrary: st)
  case Nil
  show ?case by simp
next
  case (Cons ev evs)
  obtain r st1 where step: "processEvent deps req now ev st = (r, st1)"
    by (cases "processEvent deps req now ev st")
  with Cons.prems have r: "r = None"
    by (cases r) simp_all
  with step Cons.prems have rest: "fst (processEvents deps req now evs st1) = None"
    by simp
  from processEvents_grows [of deps req now evs st1] obtain xs where
    xs: "messages (snd (processEvents deps req now evs st1)) = messages st1 @ xs" by blast
  have head: "truthy (e_providerMessageId ev)
     \<longrightarrow> isDuplicate (snd (processEvents deps req now evs st1)) ev"
  proof
    assume "truthy (e_providerMessageId ev)"
    with processEvent_then_duplicate [of deps req now ev st] step r
    have "isDuplicate st1 ev" by simp
    then show "isDuplicate (snd (processEvents deps req now evs st1)) ev"
      using xs by (rule isDuplicate_mono)
  qed
  from Cons.IH [OF rest] head step r show ?case by simp
qed



lemma handler_provider_failure:
  "createMetaProvider env st = Inl err \<Longrightarrow>
   handleMetaWebhookEvent deps env req now st = webhookFailure req err st"
  by (simp add: handleMetaWebhookEvent_def)

lemma handler_rejected:
  "createMetaProvider env st = Inr (p, inst) \<Longrightarrow> signatureRejected deps env req p inst \<Longrightarrow>
   handleMetaWebhookEvent deps env req now st =
     (\<lparr> res_status = 401, res_body = Text ''Invalid signature'' \<rparr>,
      logWebhookEvent st (requestLog req 401 (Text ''Invalid signature'')))"
  by (simp add: handleMetaWebhookEvent_def)

lemma handler_parse_failure:
  "createMetaProvider env st = Inr (p, inst) \<Longrightarrow> \<not> signatureRejected deps env req p inst \<Longrightarrow>
   parseIncoming (timestampIso deps) (req_body req) = Inl err \<Longrightarrow>
   handleMetaWebhookEvent deps env req now st = webhookFailure req err st"
  by (simp add: handleMetaWebhookEvent_def)

lemma handler_no_events:
  "createMetaProvider env st = Inr (p, inst) \<Longrightarrow> \<not> signatureRejected deps env req p inst \<Longrightarrow>
   parseIncoming (timestampIso deps) (req_body req) = Inr [] \<Longrightarrow>
   handleMetaWebhookEvent deps env req now st =
     (\<lparr> res_status = 200, res_body = Text ''ok - no events'' \<rparr>,
      logWebhookEvent st (requestLog req 200 (Text ''ok - no events'')))"
  by (simp add: handleMetaWebhookEvent_def)

lemma handler_events:
  "createMetaProvider env st = Inr (p, inst) \<Longrightarrow> \<not> signatureRejected deps env req p inst \<Longrightarrow>
   parseIncoming (timestampIso deps) (req_body req) = Inr evs \<Longrightarrow> evs \<noteq> [] \<Longrightarrow>
   handleMetaWebhookEvent deps env req now st =
     (case processEvents deps req now evs st of
        (Some err, st') \<Rightarrow> webhookFailure req err st'
      | (None, st') \<Rightarrow> (\<lparr> res_status = 200, res_body = Text ''ok'' \<rparr>, st'))"
  by (simp add: handleMetaWebhookEvent_def)

lemma webhookFailure_simps:
  "res_status (fst (webhookFailure req err st)) = 500"
  "messages (snd (webhookFailure req err st)) = messages st"
  "conversations (snd (webhookFailure req err st)) = conversations st"
  "broadcasts (snd (webhookFailure req err st)) = broadcasts st"
  "defaultInstance (snd (webhookFailure req err st)) = defaultInstance st"
  by (simp_all add: webhookFailure_def logWebhookEvent_def)

lemma logWebhookEvent_simps:
  "messages (logWebhookEvent st ev) = messages st"
  "conversations (logWebhookEvent st ev) = conversations st"
  "broadcasts (logWebhookEvent st ev) = broadcasts st"
  "defaultInstance (logWebhookEvent st ev) = defaultInstance st"
  "webhookEvents (logWebhookEvent st ev) = webhookEvents st @ [ev]"
  by (simp_all add: logWebhookEvent_def)





lemma replaceFirst_prefix: "pat \<noteq> [] \<Longrightarrow> replaceFirst pat [] (pat @ s) = s"
  by (cases pat) simp_all

lemma verifyWebhookSignature_secret:
  "appSecret p \<noteq> [] \<Longrightarrow>
   verifyWebhookSignature hmac p sig rawBody
     = (truthyStr sig \<and> replaceFirst ''sha256='' [] (the sig) = hmac (appSecret p) rawBody)"
  by (auto simp add: verifyWebhookSignature_def timingSafeEqual_def Let_def)

lemma handler_not_rejected:
  assumes "createMetaProvider env st = Inr (p, inst)" "\<not> signatureRejected deps env req p inst"
  shows "res_status (fst (handleMetaWebhookEvent deps env req now st)) \<noteq> 401"
proof (cases "parseIncoming (timestampIso deps) (req_body req)")
  case (Inl err)
  with assms show ?thesis
    by (simp add: handler_parse_failure webhookFailure_simps)
next
  case (Inr evs)
  show ?thesis
  proof (cases "evs = []")
    case True
    with assms Inr show ?thesis by (simp add: handler_no_events)
  next
    case False
    obtain r st' where "processEvents deps req now evs st = (r, st')"
      by (cases "processEvents deps req now evs st")
    with assms Inr False show ?thesis
      by (cases r) (simp_all add: handler_events webhookFailure_simps)
  qed
qed

text \<open>The identity counter stays ahead of the stored messages.\<close>

lemma emptyState_fresh: "identitiesFresh emptyState"
  by (simp add: identitiesFresh_def emptyState_def)

lemma processEvent_keeps_fresh:
  assumes "identitiesFresh st"
  shows "identitiesFresh (snd (processEvent deps req now ev st))"
  using assms
  by (cases "isDuplicate st ev"; cases "getConversationByPhone st (e_from ev)";
      cases "createPendingMediaDescriptor deps (e_media ev)"; cases "e_media ev")
     (auto simp add: processEvent_unfold identitiesFresh_def less_Suc_eq)

lemma processEvents_keeps_fresh:
  "identitiesFresh st \<Longrightarrow> identitiesFresh (snd (processEvents deps req now evs st))"
proof (induction evs arbitrary: st)
  case Nil
  then show ?case by simp
next
  case (Cons ev evs)
  obtain r st1 where step: "processEvent deps req now ev st = (r, st1)"
    by (cases "processEvent deps req now ev st")
  with processEvent_keeps_fresh [OF Cons.prems, of deps req now ev]
  have "identitiesFresh st1" by simp
  with Cons.IH [of st1] step show ?case
    by (cases r) simp_all
qed

lemma logWebhookEvent_keeps_fresh:
  "identitiesFresh (logWebhookEvent st ev) = identitiesFresh st"
  by (simp add: identitiesFresh_def logWebhookEvent_def)

lemma handleMetaWebhookEvent_keeps_fresh:
  assumes "identitiesFresh st"
  shows "identitiesFresh (snd (handleMetaWebhookEvent deps env req now st))"
proof (cases "createMetaProvider env st")
  case (Inl err)
  with assms show ?thesis
    by (simp add: handler_provider_failure webhookFailure_def logWebhookEvent_keeps_fresh)
next
  case (Inr pi)
  obtain p inst where pi: "pi = (p, inst)" by (cases pi)
  show ?thesis
  proof (cases "signatureRejected deps env req p inst")
    case True
    with Inr pi assms show ?thesis
      by (simp add: handler_rejected logWebhookEvent_keeps_fresh)
  next
    case False
    show ?thesis
    proof (cases "parseIncoming (timestampIso deps) (req_body req)")
      case (Inl err)
      with Inr pi False assms show ?thesis
        by (simp add: handler_parse_failure webhookFailure_def logWebhookEvent_keeps_fresh)
    next
      case parsed: (Inr evs)
      show ?thesis
      proof (cases "evs = []")
        case True
        with Inr pi False parsed assms show ?thesis
          by (simp add: handler_no_events logWebhookEvent_keeps_fresh)
      next
        case nonempty: False
        obtain r st' where r: "processEvents deps req now evs st = (r, st')"
          by (cases "processEvents deps req now evs st")
        with processEvents_keeps_fresh [OF assms, of deps req now evs]
        have "identitiesFresh st'" by simp
        with Inr pi False parsed nonempty r show ?thesis
          by (cases r) (simp_all add: handler_events webhookFailure_def logWebhookEvent_keeps_fresh)
      qed
    qed
  qed
qed



subsection \<open>Normalisation\<close>



























subsection \<open>Idempotent ingestion\<close>



subsection \<open>The audit log\<close>









subsection \<open>The signature gate\<close>

text \<open>
  C2, as stated, fails: the digest is not always taken over the raw body. This request has
  no captured raw body; its signature is the digest of the re-serialised parsed body, and
  with a secret configured it is accepted and its message is stored.
\<close>

theorem signature_over_reserialized_body:
  "hasAppSecret securedEnv None
   \<and> req_rawBody resignedRequest = None
   \<and> map_of (req_headers resignedRequest) ''x-hub-signature-256''
        = Some (''sha256='' @ exampleDigest ''s3cret'' (renderJson (req_body resignedRequest)))
   \<and> fst (handleMetaWebhookEvent exampleCollaborators securedEnv resignedRequest 100 emptyState)
        = \<lparr> res_status = 200, res_body = Text ''ok'' \<rparr>
   \<and> length (messages (snd (handleMetaWebhookEvent exampleCollaborators securedEnv resignedRequest
                               100 emptyState))) = 1"
  by code_simp

text \<open>
  C2, amended. With a secret configured and the provider built, a POST whose
  \<open>X-Hub-Signature-256\<close> header is absent or empty, or whose value with the first
  \<open>sha256=\<close> removed is not the HMAC of the verified bytes, is answered 401 whatever its
  body is (parsing comes later), and nothing changes but the audit log, so no message is
  persisted. A POST whose header is \<open>sha256=\<close> followed by that HMAC is not answered 401.
  The verified bytes are the captured raw body when the request has a non-empty one, and
  \<open>JSON.stringify\<close> of the parsed body otherwise.
\<close>

theorem signature_enforcement:
  assumes "createMetaProvider env st = Inr (p, inst)" and "hasAppSecret env inst"
  shows "(\<not> truthyStr (map_of (req_headers req) ''x-hub-signature-256'')
          \<or> replaceFirst ''sha256='' [] (the (map_of (req_headers req) ''x-hub-signature-256''))
               \<noteq> hmacSha256Hex deps (appSecret p) (signedBytes deps req)
          \<longrightarrow> handleMetaWebhookEvent deps env req now st =
                (\<lparr> res_status = 401, res_body = Text ''Invalid signature'' \<rparr>,
                 logWebhookEvent st (requestLog req 401 (Text ''Invalid signature'')))
              \<and> messages (snd (handleMetaWebhookEvent deps env req now st)) = messages st)
       \<and> (map_of (req_headers req) ''x-hub-signature-256''
             = Some (''sha256='' @ hmacSha256Hex deps (appSecret p) (signedBytes deps req))
          \<longrightarrow> res_status (fst (handleMetaWebhookEvent deps env req now st)) \<noteq> 401)
       \<and> signedBytes deps req =
            (if truthyStr (req_rawBody req) then the (req_rawBody req)
             else JSON_stringify deps (req_body req))"
proof -
  from assms have secret: "appSecret p \<noteq> []"
    using createMetaProvider_secret by simp
  let ?hdr = "map_of (req_headers req) ''x-hub-signature-256''"
  let ?mac = "hmacSha256Hex deps (appSecret p) (signedBytes deps req)"
  have rejected: "signatureRejected deps env req p inst
                    = (\<not> (truthyStr ?hdr \<and> replaceFirst ''sha256='' [] (the ?hdr) = ?mac))"
    using assms(2) secret by (simp add: signatureRejected_def verifyWebhookSignature_secret)
  have first: "\<not> truthyStr ?hdr \<or> replaceFirst ''sha256='' [] (the ?hdr) \<noteq> ?mac
          \<longrightarrow> handleMetaWebhookEvent deps env req now st =
                (\<lparr> res_status = 401, res_body = Text ''Invalid signature'' \<rparr>,
                 logWebhookEvent st (requestLog req 401 (Text ''Invalid signature'')))
              \<and> messages (snd (handleMetaWebhookEvent deps env req now st)) = messages st"
  proof
    assume "\<not> truthyStr ?hdr \<or> replaceFirst ''sha256='' [] (the ?hdr) \<noteq> ?mac"
    with rejected have "signatureRejected deps env req p inst" by blast
    with assms(1) show "handleMetaWebhookEvent deps env req now st =
                (\<lparr> res_status = 401, res_body = Text ''Invalid signature'' \<rparr>,
                 logWebhookEvent st (requestLog req 401 (Text ''Invalid signature'')))
              \<and> messages (snd (handleMetaWebhookEvent deps env req now st)) = messages st"
      by (simp add: handler_rejected logWebhookEvent_simps)
  qed
  have second: "?hdr = Some (''sha256='' @ ?mac)
          \<longrightarrow> res_status (fst (handleMetaWebhookEvent deps env req now st)) \<noteq> 401"
  proof
    assume h: "?hdr = Some (''sha256='' @ ?mac)"
    have "replaceFirst ''sha256='' [] (''sha256='' @ ?mac) = ?mac"
      by (rule replaceFirst_prefix) simp
    with h rejected have "\<not> signatureRejected deps env req p inst"
      by (simp add: truthyStr_def)
    with assms(1) show "res_status (fst (handleMetaWebhookEvent deps env req now st)) \<noteq> 401"
      by (rule handler_not_rejected)
  qed
  have third: "signedBytes deps req =
            (if truthyStr (req_rawBody req) then the (req_rawBody req)
             else JSON_stringify deps (req_body req))"
    by (simp add: signedBytes_def)
  from first second third show ?thesis
    by blast
qed

theorem signature_enforcement_witness:
  "createMetaProvider securedEnv emptyState = Inr (securedProvider, None)
   \<and> hasAppSecret securedEnv None
   \<and> \<not> truthyStr (map_of (req_headers emptyBodyRequest) ''x-hub-signature-256'')
   \<and> handleMetaWebhookEvent exampleCollaborators securedEnv emptyBodyRequest 100 emptyState
        = (\<lparr> res_status = 401, res_body = Text ''Invalid signature'' \<rparr>,
           logWebhookEvent emptyState (requestLog emptyBodyRequest 401 (Text ''Invalid signature'')))
   \<and> map_of (req_headers signedRequest) ''x-hub-signature-256''
        = Some (''sha256='' @ hmacSha256Hex exampleCollaborators (appSecret securedProvider)
                               (signedBytes exampleCollaborators signedRequest))
   \<and> res_status (fst (handleMetaWebhookEvent exampleCollaborators securedEnv signedRequest 100
                         emptyState)) \<noteq> 401"
proof -
  have built: "createMetaProvider securedEnv emptyState = Inr (securedProvider, None)"
    by code_simp
  have secret: "hasAppSecret securedEnv None"
    by code_simp
  have unsigned: "\<not> truthyStr (map_of (req_headers emptyBodyRequest) ''x-hub-signature-256'')"
    by code_simp
  have signed: "map_of (req_headers signedRequest) ''x-hub-signature-256''
        = Some (''sha256='' @ hmacSha256Hex exampleCollaborators (appSecret securedProvider)
                               (signedBytes exampleCollaborators signedRequest))"
    by code_simp
  from signature_enforcement [OF built secret, where deps = exampleCollaborators
         and req = emptyBodyRequest and now = 100] unsigned
  have a: "handleMetaWebhookEvent exampleCollaborators securedEnv emptyBodyRequest 100 emptyState
        = (\<lparr> res_status = 401, res_body = Text ''Invalid signature'' \<rparr>,
           logWebhookEvent emptyState (requestLog emptyBodyRequest 401 (Text ''Invalid signature'')))"
    by blast
  from signature_enforcement [OF built secret, where deps = exampleCollaborators
         and req = signedRequest and now = 100] signed
  have b: "res_status (fst (handleMetaWebhookEvent exampleCollaborators securedEnv signedRequest 100
                         emptyState)) \<noteq> 401"
    by blast
  from built secret unsigned signed a b show ?thesis
    by blast
qed

subsection \<open>Payloads without events\<close>

text \<open>
  C4, as stated, fails: with a secret configured, an unsigned POST whose body yields no
  events is answered 401.
\<close>

theorem unsigned_empty_payload_rejected:
  "parseIncoming (timestampIso exampleCollaborators) (req_body emptyBodyRequest) = Inr []
   \<and> fst (handleMetaWebhookEvent exampleCollaborators securedEnv emptyBodyRequest 100 emptyState)
        = \<lparr> res_status = 401, res_body = Text ''Invalid signature'' \<rparr>"
  by code_simp

text \<open>
  C4, amended. A POST whose body normalises to no events never persists a message. It is
  answered 200 with the body \<open>ok - no events\<close> once the provider is built and the
  signature gate is passed; it is answered 401 when the gate rejects it, and 500 when
  the provider cannot be built.
\<close>

theorem empty_payload_acknowledged:
  assumes "parseIncoming (timestampIso deps) (req_body req) = Inr []"
  shows "messages (snd (handleMetaWebhookEvent deps env req now st)) = messages st
     \<and> (case createMetaProvider env st of
           Inl err \<Rightarrow> res_status (fst (handleMetaWebhookEvent deps env req now st)) = 500
         | Inr (p, inst) \<Rightarrow>
            (if signatureRejected deps env req p inst
             then res_status (fst (handleMetaWebhookEvent deps env req now st)) = 401
             else fst (handleMetaWebhookEvent deps env req now st)
                   = \<lparr> res_status = 200, res_body = Text ''ok - no events'' \<rparr>))"
proof (cases "createMetaProvider env st")
  case (Inl err)
  then show ?thesis
    by (simp add: handler_provider_failure webhookFailure_simps)
next
  case (Inr pi)
  obtain p inst where pi: "pi = (p, inst)" by (cases pi)
  show ?thesis
  proof (cases "signatureRejected deps env req p inst")
    case True
    with Inr pi show ?thesis
      by (simp add: handler_rejected logWebhookEvent_simps)
  next
    case False
    with Inr pi assms show ?thesis
      by (simp add: handler_no_events logWebhookEvent_simps)
  qed
qed

theorem empty_payload_acknowledged_witness:
  "parseIncoming (timestampIso exampleCollaborators) (req_body emptyBodyRequest) = Inr []
   \<and> createMetaProvider exampleEnv emptyState = Inr (exampleProvider, None)
   \<and> \<not> signatureRejected exampleCollaborators exampleEnv emptyBodyRequest exampleProvider None
   \<and> messages (snd (handleMetaWebhookEvent exampleCollaborators exampleEnv emptyBodyRequest 100
                       emptyState)) = messages emptyState
   \<and> fst (handleMetaWebhookEvent exampleCollaborators exampleEnv emptyBodyRequest 100 emptyState)
        = \<lparr> res_status = 200, res_body = Text ''ok - no events'' \<rparr>"
proof -
  have parsed: "parseIncoming (timestampIso exampleCollaborators) (req_body emptyBodyRequest) = Inr []"
    by code_simp
  have built: "createMetaProvider exampleEnv emptyState = Inr (exampleProvider, None)"
    by code_simp
  have passes: "\<not> signatureRejected exampleCollaborators exampleEnv emptyBodyRequest exampleProvider None"
    by code_simp
  from empty_payload_acknowledged [OF parsed, where env = exampleEnv and now = 100 and st = emptyState]
    built passes parsed
  show ?thesis by simp
qed

subsection \<open>The verification handshake\<close>

text \<open>
  The adapter's \<open>verifyWebhook\<close> and the handler agree: a request that the adapter
  accepts and that carries a challenge is answered with the challenge, when the handler
  expects the provider's token.
\<close>

lemma verifyWebhook_handshake:
  assumes "verifyWebhook p req"
    and "map_of (req_query req) ''hub.challenge'' = Some (QStr challenge)"
    and "createMetaProvider env st = Inr (p, inst)"
    and "expectedToken env inst = verifyToken p" and "verifyToken p \<noteq> []"
  shows "fst (handleMetaWebhookVerification env req st)
           = \<lparr> res_status = 200, res_body = Text challenge \<rparr>"
proof -
  have lower: "toLowerCase ''subscribe'' = ''subscribe''"
    by code_simp
  from assms(1,2) lower have "verificationAttempt req = Some challenge"
    by (simp add: verifyWebhook_def verificationAttempt_def)
  with assms show ?thesis
    by (simp add: handleMetaWebhookVerification_def verifyWebhook_def)
qed

text \<open>
  C5, as stated, fails: when the default instance is switched off, a subscribe request
  with the configured token is answered 500.
\<close>

theorem disabled_instance_fails_verification:
  "verificationAttempt subscribeRequest = Some ''123''
   \<and> expectedToken exampleEnv (defaultInstance disabledState) \<noteq> []
   \<and> map_of (req_query subscribeRequest) ''hub.verify_token''
        = Some (QStr (expectedToken exampleEnv (defaultInstance disabledState)))
   \<and> fst (handleMetaWebhookVerification exampleEnv subscribeRequest disabledState)
        = \<lparr> res_status = 500, res_body = Text ''Error'' \<rparr>"
  by code_simp

text \<open>
  C5, amended. A GET that is not a subscribe request with a challenge is answered 200 with
  the fixed notice and changes nothing. For a subscribe request with a challenge: when
  the provider cannot be built the answer is 500; otherwise it is 500 when no verify
  token is configured, 200 with the challenge as body when the token of the request is
  the configured one, and 403 when it is not.
\<close>

theorem verification_flow:
  "(verificationAttempt req = None \<longrightarrow>
      handleMetaWebhookVerification env req st
        = (\<lparr> res_status = 200, res_body = Text onlineNotice \<rparr>, st))
   \<and> (verificationAttempt req = Some challenge \<and> createMetaProvider env st = Inl err \<longrightarrow>
        fst (handleMetaWebhookVerification env req st)
          = \<lparr> res_status = 500, res_body = Text ''Error'' \<rparr>)
   \<and> (verificationAttempt req = Some challenge \<and> createMetaProvider env st = Inr (p, inst) \<longrightarrow>
        (expectedToken env inst = [] \<longrightarrow>
           res_status (fst (handleMetaWebhookVerification env req st)) = 500)
        \<and> (expectedToken env inst \<noteq> []
            \<and> map_of (req_query req) ''hub.verify_token'' = Some (QStr (expectedToken env inst)) \<longrightarrow>
             fst (handleMetaWebhookVerification env req st)
               = \<lparr> res_status = 200, res_body = Text challenge \<rparr>)
        \<and> (expectedToken env inst \<noteq> []
            \<and> map_of (req_query req) ''hub.verify_token'' \<noteq> Some (QStr (expectedToken env inst)) \<longrightarrow>
             fst (handleMetaWebhookVerification env req st)
               = \<lparr> res_status = 403, res_body = Text ''Forbidden'' \<rparr>))"
  by (simp add: handleMetaWebhookVerification_def)

theorem verification_flow_witness:
  "verificationAttempt probeRequest = None
   \<and> handleMetaWebhookVerification exampleEnv probeRequest emptyState
        = (\<lparr> res_status = 200, res_body = Text onlineNotice \<rparr>, emptyState)
   \<and> verificationAttempt subscribeRequest = Some ''123''
   \<and> createMetaProvider exampleEnv emptyState = Inr (exampleProvider, None)
   \<and> expectedToken exampleEnv None \<noteq> []
   \<and> map_of (req_query subscribeRequest) ''hub.verify_token'' = Some (QStr (expectedToken exampleEnv None))
   \<and> fst (handleMetaWebhookVerification exampleEnv subscribeRequest emptyState)
        = \<lparr> res_status = 200, res_body = Text ''123'' \<rparr>
   \<and> verificationAttempt wrongTokenRequest = Some ''123''
   \<and> map_of (req_query wrongTokenRequest) ''hub.verify_token'' \<noteq> Some (QStr (expectedToken exampleEnv None))
   \<and> fst (handleMetaWebhookVerification exampleEnv wrongTokenRequest emptyState)
        = \<lparr> res_status = 403, res_body = Text ''Forbidden'' \<rparr>
   \<and> createMetaProvider exampleEnv disabledState
        = Inl (Error ''Default WhatsApp instance is disabled.'')
   \<and> fst (handleMetaWebhookVerification exampleEnv subscribeRequest disabledState)
        = \<lparr> res_status = 500, res_body = Text ''Error'' \<rparr>"
proof -
  have probe: "verificationAttempt probeRequest = None"
    by code_simp
  have attempt: "verificationAttempt subscribeRequest = Some ''123''"
    "verificationAttempt wrongTokenRequest = Some ''123''"
    by code_simp+
  have built: "createMetaProvider exampleEnv emptyState = Inr (exampleProvider, None)"
    by code_simp
  have broken: "createMetaProvider exampleEnv disabledState
                  = Inl (Error ''Default WhatsApp instance is disabled.'')"
    by code_simp
  have configured: "expectedToken exampleEnv None \<noteq> []"
    by code_simp
  have right: "map_of (req_query subscribeRequest) ''hub.verify_token''
                 = Some (QStr (expectedToken exampleEnv None))"
    by code_simp
  have wrong: "map_of (req_query wrongTokenRequest) ''hub.verify_token''
                 \<noteq> Some (QStr (expectedToken exampleEnv None))"
    by code_simp
  from verification_flow [where req = probeRequest and env = exampleEnv and st = emptyState] probe
  have a: "handleMetaWebhookVerification exampleEnv probeRequest emptyState
        = (\<lparr> res_status = 200, res_body = Text onlineNotice \<rparr>, emptyState)"
    by blast
  from verification_flow [where req = subscribeRequest and env = exampleEnv and st = emptyState
         and challenge = "''123''" and p = exampleProvider and inst = None]
    attempt built configured right
  have b: "fst (handleMetaWebhookVerification exampleEnv subscribeRequest emptyState)
        = \<lparr> res_status = 200, res_body = Text ''123'' \<rparr>"
    by blast
  from verification_flow [where req = wrongTokenRequest and env = exampleEnv and st = emptyState
         and challenge = "''123''" and p = exampleProvider and inst = None]
    attempt built configured wrong
  have c: "fst (handleMetaWebhookVerification exampleEnv wrongTokenRequest emptyState)
        = \<lparr> res_status = 403, res_body = Text ''Forbidden'' \<rparr>"
    by blast
  from verification_flow [where req = subscribeRequest and env = exampleEnv and st = disabledState
         and challenge = "''123''" and err = "Error ''Default WhatsApp instance is disabled.''"]
    attempt broken
  have d: "fst (handleMetaWebhookVerification exampleEnv subscribeRequest disabledState)
        = \<lparr> res_status = 500, res_body = Text ''Error'' \<rparr>"
    by blast
  from probe attempt built broken configured right wrong a b c d show ?thesis
    by blast
qed

subsection \<open>The send endpoint\<close>

lemma resolveConversation_refusal:
  assumes "resolveConversation req now st = Inl refusal"
  shows "res_status refusal = 400
       \<or> (res_status refusal = 404
           \<and> (\<exists>cid. sr_conversationId req = Some cid \<and> getConversationById st cid = None))"
  using assms
  by (cases "sr_conversationId req"; cases "getConversationByPhone st (Some (JStr (the (sr_to req))))")
     (auto simp add: resolveConversation_def badRequest_def createConversation_def Let_def
        split: if_splits option.splits)

lemma resolveConversation_state:
  assumes "resolveConversation req now st = Inr (c, st1)"
  shows "messages st1 = messages st \<and> dispatched st1 = dispatched st
       \<and> broadcasts st1 = broadcasts st \<and> defaultInstance st1 = defaultInstance st
       \<and> nextId st \<le> nextId st1"
  using assms
  by (cases "sr_conversationId req"; cases "getConversationByPhone st (Some (JStr (the (sr_to req))))")
     (auto simp add: resolveConversation_def badRequest_def createConversation_def Let_def
        split: if_splits option.splits)

lemma getMessageById_cong:
  "messages st1 = messages st \<Longrightarrow> getMessageById st1 r = getMessageById st r"
  by (simp add: getMessageById_def)

lemma messageSend_refused:
  "resolveConversation req now st = Inl refusal \<Longrightarrow>
   messageSend deps env fetch req now st = (refusal, st)"
  by (simp add: messageSend_def)

lemma messageSend_bad_reply:
  "resolveConversation req now st = Inr (c, st1) \<Longrightarrow> checkReplyTarget req c st1 = Some refusal \<Longrightarrow>
   messageSend deps env fetch req now st = (refusal, st1)"
  by (simp add: messageSend_def)

lemma getMessageById_fresh:
  assumes "\<forall>x \<in> set ms. msg_id x \<noteq> msg_id m"
  shows "find (\<lambda>x. msg_id x = msg_id m) (ms @ [m]) = Some m"
  using assms by (induction ms) simp_all

lemma resolveConversation_keeps_fresh:
  assumes "resolveConversation req now st = Inr (c, st1)" "identitiesFresh st"
  shows "identitiesFresh st1"
  using resolveConversation_state [OF assms(1)] assms(2)
  by (auto simp add: identitiesFresh_def)

lemma messageSend_keeps_fresh:
  assumes "identitiesFresh st"
  shows "identitiesFresh (snd (messageSend deps env fetch req now st))"
proof (cases "resolveConversation req now st")
  case (Inl refusal)
  with assms show ?thesis by (simp add: messageSend_refused)
next
  case (Inr cs)
  obtain c st1 where cs: "cs = (c, st1)" by (cases cs)
  from Inr cs assms have fresh1: "identitiesFresh st1"
    using resolveConversation_keeps_fresh by simp
  show ?thesis
  proof (cases "checkReplyTarget req c st1")
    case (Some refusal)
    with Inr cs fresh1 show ?thesis by (simp add: messageSend_bad_reply)
  next
    case None
    show ?thesis
    proof (cases "outboundMedia deps (sr_media_url req)")
      case (Inl err)
      with Inr cs None fresh1 show ?thesis by (simp add: messageSend_def)
    next
      case md: (Inr mediaDescriptor)
      show ?thesis
      proof (cases "createMetaProvider env st1")
        case (Inl err)
        with Inr cs None md fresh1 show ?thesis by (simp add: messageSend_def)
      next
        case built: (Inr pi)
        obtain p inst where pi: "pi = (p, inst)" by (cases pi)
        obtain resp sent where sent:
          "send p fetch (c_phone c) (sr_body req) (providerMediaUrl deps (sr_media_url req)) = (resp, sent)"
          by (cases "send p fetch (c_phone c) (sr_body req) (providerMediaUrl deps (sr_media_url req))")
        from Inr cs None md built pi sent fresh1 show ?thesis
          by (cases sent)
             (auto simp add: messageSend_def createMessage_def updateConversationLastAt_def
                broadcastMessage_def Let_def identitiesFresh_def less_Suc_eq)
      qed
    qed
  qed
qed

text \<open>
  C9, as stated, fails: a request that names a conversation which does not exist is
  answered 404, also when its reply target does not exist.
\<close>

theorem unknown_conversation_answers_404:
  "sr_replyToMessageId danglingRequest = Some 5
   \<and> getMessageById emptyState 5 = None
   \<and> res_status (fst (messageSend exampleCollaborators exampleEnv failingFetch danglingRequest 100
                         emptyState)) = 404"
  by code_simp

text \<open>
  C9, amended. A send request whose \<open>replyToMessageId\<close> names a message that does not
  exist, is outbound, or belongs to another conversation than the resolved one is
  answered 400, or 404 when its \<open>conversationId\<close> matches no conversation; in either
  case nothing is dispatched to the provider and no message is persisted.
\<close>

theorem reply_integrity:
  assumes "sr_replyToMessageId req = Some r"
    and "case getMessageById st r of
           None \<Rightarrow> True
         | Some target \<Rightarrow>
             direction target = Outbound
             \<or> (\<forall>c st1. resolveConversation req now st = Inr (c, st1)
                    \<longrightarrow> conversationId target \<noteq> c_id c)"
  shows "(res_status (fst (messageSend deps env fetch req now st)) = 400
          \<or> (res_status (fst (messageSend deps env fetch req now st)) = 404
              \<and> (\<exists>cid. sr_conversationId req = Some cid \<and> getConversationById st cid = None)))
       \<and> messages (snd (messageSend deps env fetch req now st)) = messages st
       \<and> dispatched (snd (messageSend deps env fetch req now st)) = dispatched st"
proof (cases "resolveConversation req now st")
  case (Inl refusal)
  with resolveConversation_refusal [OF Inl] show ?thesis
    by (simp add: messageSend_refused)
next
  case (Inr cs)
  obtain c st1 where cs: "cs = (c, st1)" by (cases cs)
  from Inr cs resolveConversation_state [of req now st c st1]
  have same: "messages st1 = messages st" "dispatched st1 = dispatched st" by simp_all
  from same(1) have lookup: "getMessageById st1 r = getMessageById st r"
    by (rule getMessageById_cong)
  have "\<exists>msg. checkReplyTarget req c st1 = Some (badRequest msg)"
  proof (cases "getMessageById st r")
    case None
    with assms(1) lookup show ?thesis
      by (auto simp add: checkReplyTarget_def)
  next
    case (Some target)
    with assms(2) Inr cs
    have "direction target = Outbound \<or> conversationId target \<noteq> c_id c" by auto
    with Some assms(1) lookup show ?thesis
      by (auto simp add: checkReplyTarget_def)
  qed
  then obtain msg where "checkReplyTarget req c st1 = Some (badRequest msg)" ..
  with Inr cs same show ?thesis
    by (simp add: messageSend_bad_reply badRequest_def)
qed

theorem reply_integrity_witness:
  "sr_replyToMessageId replyRequest = Some 2
   \<and> map_option direction (getMessageById stateAfterHello 2) = Some Outbound
   \<and> res_status (fst (messageSend exampleCollaborators exampleEnv failingFetch replyRequest 200
                         stateAfterHello)) = 400
   \<and> messages (snd (messageSend exampleCollaborators exampleEnv failingFetch replyRequest 200
                       stateAfterHello)) = messages stateAfterHello
   \<and> dispatched (snd (messageSend exampleCollaborators exampleEnv failingFetch replyRequest 200
                         stateAfterHello)) = dispatched stateAfterHello"
proof -
  have named: "sr_replyToMessageId replyRequest = Some 2"
    by code_simp
  have outbound: "map_option direction (getMessageById stateAfterHello 2) = Some Outbound"
    by code_simp
  then have bad: "case getMessageById stateAfterHello 2 of
           None \<Rightarrow> True
         | Some target \<Rightarrow>
             direction target = Outbound
             \<or> (\<forall>c st1. resolveConversation replyRequest 200 stateAfterHello = Inr (c, st1)
                    \<longrightarrow> conversationId target \<noteq> c_id c)"
    by (cases "getMessageById stateAfterHello 2") simp_all
  have byPhone: "sr_conversationId replyRequest = None"
    by code_simp
  from reply_integrity [OF named bad, where deps = exampleCollaborators and env = exampleEnv
         and fetch = failingFetch] byPhone
  have "res_status (fst (messageSend exampleCollaborators exampleEnv failingFetch replyRequest 200
                         stateAfterHello)) = 400
   \<and> messages (snd (messageSend exampleCollaborators exampleEnv failingFetch replyRequest 200
                       stateAfterHello)) = messages stateAfterHello
   \<and> dispatched (snd (messageSend exampleCollaborators exampleEnv failingFetch replyRequest 200
                         stateAfterHello)) = dispatched stateAfterHello"
    by simp
  with named outbound show ?thesis
    by blast
qed

text \<open>
  C8. When only the dispatch fails, that is, the conversation is resolved, the reply
  target (if any) is accepted, the provider is built, and \<open>send\<close> throws, the
  request does not fail: an outbound message with status
  \<open>failed\<close> is persisted, the answer is 200 with that message, and the message is
  broadcast as \<open>message_outgoing\<close>. The store is one whose identity counter is ahead
  of its messages, as every store reached from the empty one is.
\<close>

lemma getExtensionFromFilename_string:
  "\<exists>e. getExtensionFromFilename (map_option JStr f) = Inr e"
  by (cases f) (simp_all add: getExtensionFromFilename_def truthy_def Let_def)

lemma outboundMedia_total: "\<exists>md. outboundMedia deps url = Inr md"
proof -
  let ?rel = "if truthyStr url then extractRelativeMediaPath deps (the url) else None"
  let ?name = "if truthyStr ?rel then Some (basename (the ?rel))
               else if truthyStr url then Some (basename (normalizedUrl (the url))) else None"
  from getExtensionFromFilename_string [of ?name]
  obtain e where "getExtensionFromFilename (map_option JStr ?name) = Inr e" ..
  then show ?thesis
    by (simp add: outboundMedia_def Let_def)
qed

theorem dispatch_failure_recorded:
  assumes "resolveConversation req now st = Inr (c, st1)"
    and "checkReplyTarget req c st1 = None"
    and "createMetaProvider env st1 = Inr (p, inst)"
    and "fst (send p fetch (c_phone c) (sr_body req) (providerMediaUrl deps (sr_media_url req)))
           = Inl err"
    and "identitiesFresh st"
  shows "\<exists>m. fst (messageSend deps env fetch req now st)
              = \<lparr> res_status = 200, res_body = OkMessage (buildSignedMediaUrlsForMessage deps m) \<rparr>
            \<and> messages (snd (messageSend deps env fetch req now st)) = messages st @ [m]
            \<and> status m = ''failed'' \<and> direction m = Outbound \<and> conversationId m = c_id c
            \<and> providerMessageId m = None
            \<and> broadcasts (snd (messageSend deps env fetch req now st))
                 = broadcasts st @ [(''message_outgoing'', buildSignedMediaUrlsForMessage deps m)]"
proof -
  from outboundMedia_total obtain md where md: "outboundMedia deps (sr_media_url req) = Inr md"
    by blast
  obtain sentPayload where sent:
    "send p fetch (c_phone c) (sr_body req) (providerMediaUrl deps (sr_media_url req))
       = (Inl err, sentPayload)"
    using assms(4)
    by (cases "send p fetch (c_phone c) (sr_body req) (providerMediaUrl deps (sr_media_url req))") simp
  from resolveConversation_state [OF assms(1)]
  have same: "messages st1 = messages st" "broadcasts st1 = broadcasts st" "nextId st \<le> nextId st1"
    by simp_all
  define st2 where "st2 = (case sentPayload of None \<Rightarrow> st1
                           | Some pl \<Rightarrow> st1\<lparr> dispatched := dispatched st1 @ [pl] \<rparr>)"
  have st2: "messages st2 = messages st" "broadcasts st2 = broadcasts st" "nextId st2 = nextId st1"
    using same by (simp_all add: st2_def split: option.splits)
  define m where "m = \<lparr> msg_id = nextId st2, conversationId = c_id c, direction = Outbound,
                        body = (if truthyStr (sr_body req) then Some (JStr (the (sr_body req))) else None),
                        media = md, providerMessageId = None, status = ''failed'', raw = None,
                        replyToMessageId = sr_replyToMessageId req, sentByUserId = sr_user req \<rparr>"
  from assms(5) same(3) st2 have "\<forall>x \<in> set (messages st2). msg_id x \<noteq> msg_id m"
    by (auto simp add: identitiesFresh_def m_def)
  then have found: "find (\<lambda>x. msg_id x = nextId st2) (messages st2 @ [m]) = Some m"
    using getMessageById_fresh [of "messages st2" m] by (simp add: m_def)
  have "messageSend deps env fetch req now st
          = (\<lparr> res_status = 200, res_body = OkMessage (buildSignedMediaUrlsForMessage deps m) \<rparr>,
             broadcastMessage
               (updateConversationLastAt
                  (st2\<lparr> messages := messages st2 @ [m], nextId := Suc (nextId st2) \<rparr>) now (c_id c))
               ''message_outgoing'' (buildSignedMediaUrlsForMessage deps m))"
    using assms(1-3) md sent found
    by (simp add: messageSend_def createMessage_def Let_def st2_def [symmetric] m_def [symmetric]
          getMessageWithReplyById_def getMessageById_def updateConversationLastAt_def)
  then show ?thesis
    using st2 by (auto simp add: broadcastMessage_def updateConversationLastAt_def m_def)
qed

theorem dispatch_failure_recorded_witness:
  "resolveConversation helloRequest 100 emptyState
     = Inr (helloConversation,
            emptyState\<lparr> conversations := [helloConversation], nextId := 2 \<rparr>)
   \<and> checkReplyTarget helloRequest helloConversation
        (emptyState\<lparr> conversations := [helloConversation], nextId := 2 \<rparr>) = None
   \<and> outboundMedia exampleCollaborators (sr_media_url helloRequest) = Inr None
   \<and> createMetaProvider exampleEnv (emptyState\<lparr> conversations := [helloConversation], nextId := 2 \<rparr>)
        = Inr (exampleProvider, None)
   \<and> fst (send exampleProvider failingFetch (c_phone helloConversation) (sr_body helloRequest)
             (providerMediaUrl exampleCollaborators (sr_media_url helloRequest)))
        = Inl (Error ''Meta API error: upstream unavailable'')
   \<and> identitiesFresh emptyState
   \<and> (\<exists>m. fst (messageSend exampleCollaborators exampleEnv failingFetch helloRequest 100 emptyState)
              = \<lparr> res_status = 200,
                  res_body = OkMessage (buildSignedMediaUrlsForMessage exampleCollaborators m) \<rparr>
            \<and> messages (snd (messageSend exampleCollaborators exampleEnv failingFetch helloRequest
                               100 emptyState)) = messages emptyState @ [m]
            \<and> status m = ''failed'' \<and> direction m = Outbound
            \<and> broadcasts (snd (messageSend exampleCollaborators exampleEnv failingFetch helloRequest
                                 100 emptyState))
                = broadcasts emptyState
                    @ [(''message_outgoing'', buildSignedMediaUrlsForMessage exampleCollaborators m)])"
proof -
  let ?st1 = "emptyState\<lparr> conversations := [helloConversation], nextId := 2 \<rparr>"
  have resolved: "resolveConversation helloRequest 100 emptyState = Inr (helloConversation, ?st1)"
    by code_simp
  have noReply: "checkReplyTarget helloRequest helloConversation ?st1 = None"
    by code_simp
  have noMedia: "outboundMedia exampleCollaborators (sr_media_url helloRequest) = Inr None"
    by code_simp
  have built: "createMetaProvider exampleEnv ?st1 = Inr (exampleProvider, None)"
    by code_simp
  have failed: "fst (send exampleProvider failingFetch (c_phone helloConversation) (sr_body helloRequest)
             (providerMediaUrl exampleCollaborators (sr_media_url helloRequest)))
        = Inl (Error ''Meta API error: upstream unavailable'')"
    by code_simp
  have fresh: "identitiesFresh emptyState"
    by code_simp
  from dispatch_failure_recorded [OF resolved noReply built failed fresh]
  have "\<exists>m. fst (messageSend exampleCollaborators exampleEnv failingFetch helloRequest 100 emptyState)
              = \<lparr> res_status = 200,
                  res_body = OkMessage (buildSignedMediaUrlsForMessage exampleCollaborators m) \<rparr>
            \<and> messages (snd (messageSend exampleCollaborators exampleEnv failingFetch helloRequest
                               100 emptyState)) = messages emptyState @ [m]
            \<and> status m = ''failed'' \<and> direction m = Outbound
            \<and> broadcasts (snd (messageSend exampleCollaborators exampleEnv failingFetch helloRequest
                                 100 emptyState))
                = broadcasts emptyState
                    @ [(''message_outgoing'', buildSignedMediaUrlsForMessage exampleCollaborators m)]"
    by blast
  with resolved noReply noMedia built failed fresh show ?thesis
    by blast
qed

end
